theory Spec2Isabelle
  imports Main "HOL-Library.Word" "HOL-Library.AList"
begin

section \<open>Strings\<close>

text \<open>
  A JavaScript string is a sequence of UTF-16 code units. The literals of the source
  that are not ASCII (the Russian texts and section titles) are written out as their
  code units; ASCII literals go through \<open>ascii\<close>.
\<close>

type_synonym jsstring = "16 word list"

definition ascii :: "string \<Rightarrow> jsstring" where
  "ascii s = map of_char s"

subsection \<open>The texts of the source, as UTF-16 code units\<close>

definition MKB :: jsstring where
  \<comment> \<open>the excluded section title (the ICD code section)\<close>
  "MKB = [1052, 1050, 1041]"

definition Lechenie :: jsstring where
  \<comment> \<open>the prioritized section title meaning treatment\<close>
  "Lechenie = [1051, 1077, 1095, 1077, 1085, 1080, 1077]"

definition Diagnostika :: jsstring where
  \<comment> \<open>the prioritized section title meaning diagnostics\<close>
  "Diagnostika = [1044, 1080, 1072, 1075, 1085, 1086, 1089, 1090, 1080, 1082, 1072]"

definition txt_section_not_found :: jsstring where
  \<comment> \<open>section not found\<close>
  "txt_section_not_found = [1056, 1072, 1079, 1076, 1077, 1083, 32, 1085, 1077, 32, 1085, 1072, 1081, 1076, 1077,
     1085]"

definition txt_info_not_found :: jsstring where
  \<comment> \<open>information not found\<close>
  "txt_info_not_found = [1048, 1085, 1092, 1086, 1088, 1084, 1072, 1094, 1080, 1103, 32, 1085, 1077, 32, 1085,
     1072, 1081, 1076, 1077, 1085, 1072]"

definition txt_try_again :: jsstring where
  \<comment> \<open>the suffix sendErrorMessage appends: please try again\<close>
  "txt_try_again = [46, 32, 1055, 1086, 1078, 1072, 1083, 1091, 1081, 1089, 1090, 1072, 44, 32, 1087, 1086,
     1087, 1088, 1086, 1073, 1091, 1081, 1090, 1077, 32, 1089, 1085, 1086, 1074, 1072, 46]"

definition txt_new_diagnosis :: jsstring where
  \<comment> \<open>the label of the new-diagnosis button\<close>
  "txt_new_diagnosis = [1042, 1074, 1077, 1089, 1090, 1080, 32, 1085, 1086, 1074, 1099, 1081, 32, 1076, 1080,
     1072, 1075, 1085, 1086, 1079]"

definition txt_search_error :: jsstring where
  \<comment> \<open>the search failed, try later\<close>
  "txt_search_error = [1055, 1088, 1086, 1080, 1079, 1086, 1096, 1083, 1072, 32, 1086, 1096, 1080, 1073, 1082,
     1072, 32, 1087, 1088, 1080, 32, 1087, 1086, 1080, 1089, 1082, 1077, 32, 1076, 1080,
     1072, 1075, 1085, 1086, 1079, 1086, 1074, 46, 32, 1055, 1086, 1087, 1088, 1086, 1073,
     1091, 1081, 1090, 1077, 32, 1087, 1086, 1079, 1078, 1077, 46]"

definition txt_load_error :: jsstring where
  \<comment> \<open>loading failed, try later\<close>
  "txt_load_error = [1055, 1088, 1086, 1080, 1079, 1086, 1096, 1083, 1072, 32, 1086, 1096, 1080, 1073, 1082,
     1072, 32, 1087, 1088, 1080, 32, 1079, 1072, 1075, 1088, 1091, 1079, 1082, 1077, 32,
     1080, 1085, 1092, 1086, 1088, 1084, 1072, 1094, 1080, 1080, 46, 32, 1055, 1086, 1087,
     1088, 1086, 1073, 1091, 1081, 1090, 1077, 32, 1087, 1086, 1079, 1078, 1077, 46]"

definition txt_searching :: jsstring where
  \<comment> \<open>looking for similar diagnoses\<close>
  "txt_searching = [1048, 1097, 1091, 32, 1087, 1086, 1093, 1086, 1078, 1080, 1077, 32, 1076, 1080, 1072,
     1075, 1085, 1086, 1079, 1099, 46, 46, 46]"

definition txt_no_results :: jsstring where
  \<comment> \<open>nothing found for the query\<close>
  "txt_no_results = [1055, 1086, 32, 1074, 1072, 1096, 1077, 1084, 1091, 32, 1079, 1072, 1087, 1088, 1086,
     1089, 1091, 32, 1085, 1080, 1095, 1077, 1075, 1086, 32, 1085, 1077, 32, 1085, 1072,
     1081, 1076, 1077, 1085, 1086, 46, 32, 1055, 1086, 1087, 1088, 1086, 1073, 1091, 1081,
     1090, 1077, 32, 1074, 1074, 1077, 1089, 1090, 1080, 32, 1076, 1088, 1091, 1075, 1086,
     1081, 32, 1076, 1080, 1072, 1075, 1085, 1086, 1079, 32, 1080, 1083, 1080, 32, 1091,
     1090, 1086, 1095, 1085, 1080, 1090, 1100, 32, 1092, 1086, 1088, 1084, 1091, 1083, 1080,
     1088, 1086, 1074, 1082, 1091, 46]"

definition txt_found :: jsstring where
  \<comment> \<open>these diagnoses were found, choose one\<close>
  "txt_found = [1053, 1072, 1081, 1076, 1077, 1085, 1099, 32, 1089, 1083, 1077, 1076, 1091, 1102, 1097,
     1080, 1077, 32, 1076, 1080, 1072, 1075, 1085, 1086, 1079, 1099, 46, 32, 1042, 1099,
     1073, 1077, 1088, 1080, 1090, 1077, 32, 1087, 1086, 1076, 1093, 1086, 1076, 1103, 1097,
     1080, 1081, 58]"

definition txt_loading_content :: jsstring where
  \<comment> \<open>two line feeds, then: loading the content\<close>
  "txt_loading_content = [10, 10, 1047, 1072, 1075, 1088, 1091, 1078, 1072, 1102, 32, 1089, 1086, 1076, 1077,
     1088, 1078, 1080, 1084, 1086, 1077, 46, 46, 46]"

definition txt_available_sections :: jsstring where
  \<comment> \<open>two line feeds, then: available sections\<close>
  "txt_available_sections = [10, 10, 1044, 1086, 1089, 1090, 1091, 1087, 1085, 1099, 1077, 32, 1088, 1072, 1079,
     1076, 1077, 1083, 1099, 58]"

definition txt_back_to_sections :: jsstring where
  \<comment> \<open>the label of the back-to-sections button\<close>
  "txt_back_to_sections = [1053, 1072, 1079, 1072, 1076, 32, 1082, 32, 1088, 1072, 1079, 1076, 1077, 1083, 1072,
     1084]"

definition Prochee :: jsstring where
  \<comment> \<open>a section title meaning other, used in the example of the section list\<close>
  "Prochee = [1055, 1088, 1086, 1095, 1077, 1077]"

section \<open>The data model (src/index.ts, lines 11-25)\<close>

text \<open>
  \<open>callbackMap\<close> is declared as a plain object from string keys to strings, but
  \<open>loadSessions\<close> turns an array found in the file into a \<open>Map\<close>, so both kinds
  of value can sit in the field at run time. A plain object is the list of its own
  properties in insertion order. A \<open>Map\<close> object has its entries and, apart from
  them, the own properties that an index assignment \<open>m[key] = value\<close> puts on the
  object itself.
\<close>

type_synonym properties = "(jsstring \<times> jsstring) list"

datatype callback_map =
    PlainObject properties
  | MapObject properties properties

text \<open>\<open>m[key]\<close> and \<open>m[key] = value\<close>: on either kind of object they read and write an own property.\<close>

fun get_property :: "callback_map \<Rightarrow> jsstring \<Rightarrow> jsstring option" where
  "get_property (PlainObject ps) k = map_of ps k"
| "get_property (MapObject es ps) k = map_of ps k"

fun set_property :: "callback_map \<Rightarrow> jsstring \<Rightarrow> jsstring \<Rightarrow> callback_map" where
  "set_property (PlainObject ps) k v = PlainObject (AList.update k v ps)"
| "set_property (MapObject es ps) k v = MapObject es (AList.update k v ps)"

text \<open>
  The interface \<open>UserState\<close>: every field is optional, \<open>None\<close> is \<open>undefined\<close>.
  The type of the callback map is a parameter, because the state in memory and the
  state in the session file differ in that field only.
\<close>

record 'm UserState_of =
  diagnosis :: "jsstring option"
  sections :: "jsstring list option"
  messageIds :: "int list option"
  callbackMap :: "'m option"
  currentSection :: "jsstring option"

type_synonym UserState = "callback_map UserState_of"

text \<open>The object literal \<open>{}\<close>.\<close>

definition empty_state :: "'m UserState_of" where
  "empty_state = \<lparr>diagnosis = None, sections = None, messageIds = None,
     callbackMap = None, currentSection = None\<rparr>"

text \<open>
  \<open>Partial<UserState>\<close>: for each field, \<open>None\<close> when the object does not name the
  field, \<open>Some v\<close> when it names it with the value \<open>v\<close> (which may be \<open>undefined\<close>,
  as in \<open>{ callbackMap: ctx.userState.callbackMap }\<close> with no map attached).
\<close>

record UserState_partial =
  named_diagnosis :: "jsstring option option"
  named_sections :: "jsstring list option option"
  named_messageIds :: "int list option option"
  named_callbackMap :: "callback_map option option"
  named_currentSection :: "jsstring option option"

definition names_nothing :: UserState_partial where
  "names_nothing = \<lparr>named_diagnosis = None, named_sections = None, named_messageIds = None,
     named_callbackMap = None, named_currentSection = None\<rparr>"

text \<open>The object spread \<open>{ ...state, ...update }\<close>: a field that \<open>update\<close> names wins.\<close>

definition spread :: "UserState \<Rightarrow> UserState_partial \<Rightarrow> UserState" where
  "spread s p =
     \<lparr>diagnosis = (case named_diagnosis p of None \<Rightarrow> diagnosis s | Some v \<Rightarrow> v),
      sections = (case named_sections p of None \<Rightarrow> sections s | Some v \<Rightarrow> v),
      messageIds = (case named_messageIds p of None \<Rightarrow> messageIds s | Some v \<Rightarrow> v),
      callbackMap = (case named_callbackMap p of None \<Rightarrow> callbackMap s | Some v \<Rightarrow> v),
      currentSection = (case named_currentSection p of None \<Rightarrow> currentSection s | Some v \<Rightarrow> v)\<rparr>"

section \<open>The session file\<close>

text \<open>
  The file holds a JSON document: an object from user ids to states. The document is
  modelled by its structure; \<open>JSON.stringify\<close> and \<open>JSON.parse\<close> are the platform's
  and are inverse to each other on it. \<open>JSON.stringify\<close> leaves out a field whose
  value is \<open>undefined\<close>, which is \<open>None\<close> here as well. A callback map is written
  either as a JSON object (what a plain object becomes) or as an array of key-value
  pairs (what \<open>saveSessions\<close> makes of a \<open>Map\<close>).
\<close>

datatype serialized_callback_map =
    ObjectEncoding properties
  | ArrayEncoding properties

type_synonym SerializedState = "serialized_callback_map UserState_of"

type_synonym document = "int \<Rightarrow> SerializedState option"

text \<open>
  What is at the path of the session file: nothing, something that cannot be read or
  parsed, or a document.
\<close>

datatype session_file = Missing | Unparsable | Document document

section \<open>The environment\<close>

text \<open>
  The collaborators the program calls and does not implement, as the answers they give:
  the SHA-256 digest of the \<open>crypto\<close> module in hexadecimal, whether the transport
  deletes a message, the id of the message the transport sends for a text and a
  keyboard (\<open>None\<close> when the call rejects), the content API (\<open>None\<close> when the
  request fails), and whether a write of the session file succeeds.
\<close>

datatype button = Callback (button_text: jsstring) (button_data: jsstring)

type_synonym keyboard = "button list list"

record env =
  sha256_hex :: "jsstring \<Rightarrow> jsstring"
  deleteMessage_ok :: "int \<Rightarrow> bool"
  sent_message_id :: "jsstring \<Rightarrow> keyboard option \<Rightarrow> int option"
  similar_diagnoses :: "jsstring \<Rightarrow> jsstring list option"
  section_content :: "jsstring \<Rightarrow> jsstring \<Rightarrow> jsstring option"
  writeFileSync_ok :: "document \<Rightarrow> bool"

section \<open>SessionManager (src/index.ts, lines 27-106)\<close>

text \<open>
  The store in memory, from user ids to states, and what the file system holds at the
  path \<open>sessionFile\<close>.
\<close>

record SessionManager =
  sessionData :: "int \<Rightarrow> UserState option"
  sessionFile :: session_file

text \<open>\<open>new Map(pairs)\<close>: a later pair with the same key replaces the value of the entry.\<close>

definition new_Map :: "properties \<Rightarrow> properties" where
  "new_Map pairs = foldl (\<lambda>m (k, v). AList.update k v m) [] pairs"

fun restore_callbackMap :: "serialized_callback_map \<Rightarrow> callback_map" where
  "restore_callbackMap (ArrayEncoding pairs) = MapObject (new_Map pairs) []"
| "restore_callbackMap (ObjectEncoding ps) = PlainObject ps"

definition restore_state :: "SerializedState \<Rightarrow> UserState" where
  "restore_state st =
     \<lparr>diagnosis = diagnosis st, sections = sections st, messageIds = messageIds st,
      callbackMap = map_option restore_callbackMap (callbackMap st),
      currentSection = currentSection st\<rparr>"

definition loadSessions :: "session_file \<Rightarrow> int \<Rightarrow> UserState option" where
  "loadSessions file =
     (case file of
        Missing \<Rightarrow> Map.empty
      | Unparsable \<Rightarrow> Map.empty
      | Document parsedData \<Rightarrow> (\<lambda>userId. map_option restore_state (parsedData userId)))"

text \<open>The constructor: the store starts empty and is loaded from the file.\<close>

definition new_SessionManager :: "session_file \<Rightarrow> SessionManager" where
  "new_SessionManager file = \<lparr>sessionData = loadSessions file, sessionFile = file\<rparr>"

fun serializable_callbackMap :: "callback_map \<Rightarrow> serialized_callback_map" where
  "serializable_callbackMap (MapObject es ps) = ArrayEncoding es"
| "serializable_callbackMap (PlainObject ps) = ObjectEncoding ps"

definition serializableState :: "UserState \<Rightarrow> SerializedState" where
  "serializableState s =
     \<lparr>diagnosis = diagnosis s, sections = sections s, messageIds = messageIds s,
      callbackMap = map_option serializable_callbackMap (callbackMap s),
      currentSection = currentSection s\<rparr>"

definition serializableData :: "(int \<Rightarrow> UserState option) \<Rightarrow> document" where
  "serializableData sd = (\<lambda>userId. map_option serializableState (sd userId))"

text \<open>A failed write is logged and swallowed: the file keeps what it had.\<close>

definition saveSessions :: "env \<Rightarrow> SessionManager \<Rightarrow> SessionManager" where
  "saveSessions e sm =
     (if writeFileSync_ok e (serializableData (sessionData sm))
      then sm\<lparr>sessionFile := Document (serializableData (sessionData sm))\<rparr>
      else sm)"

definition getUserState :: "SessionManager \<Rightarrow> int \<Rightarrow> UserState option" where
  "getUserState sm userId = sessionData sm userId"

definition setUserState :: "env \<Rightarrow> int \<Rightarrow> UserState \<Rightarrow> SessionManager \<Rightarrow> SessionManager" where
  "setUserState e userId s sm =
     saveSessions e (sm\<lparr>sessionData := (sessionData sm)(userId \<mapsto> s)\<rparr>)"

definition updateUserState ::
  "env \<Rightarrow> int \<Rightarrow> UserState_partial \<Rightarrow> SessionManager \<Rightarrow> SessionManager" where
  "updateUserState e userId update sm =
     (let existing = (case sessionData sm userId of None \<Rightarrow> empty_state | Some s \<Rightarrow> s)
      in saveSessions e (sm\<lparr>sessionData := (sessionData sm)(userId \<mapsto> spread existing update)\<rparr>))"

definition deleteUserState :: "env \<Rightarrow> int \<Rightarrow> SessionManager \<Rightarrow> SessionManager" where
  "deleteUserState e userId sm =
     (case sessionData sm userId of
        None \<Rightarrow> sm
      | Some s \<Rightarrow> saveSessions e (sm\<lparr>sessionData := (sessionData sm)(userId := None)\<rparr>))"

definition clearAllSessions :: "env \<Rightarrow> SessionManager \<Rightarrow> SessionManager" where
  "clearAllSessions e sm = saveSessions e (sm\<lparr>sessionData := Map.empty\<rparr>)"

text \<open>The mutating operations of the store, as values, to speak about sequences of them.\<close>

datatype mutation =
    SetUserState int UserState
  | UpdateUserState int UserState_partial
  | DeleteUserState int
  | ClearAllSessions

fun apply_mutation :: "env \<Rightarrow> mutation \<Rightarrow> SessionManager \<Rightarrow> SessionManager" where
  "apply_mutation e (SetUserState userId s) sm = setUserState e userId s sm"
| "apply_mutation e (UpdateUserState userId p) sm = updateUserState e userId p sm"
| "apply_mutation e (DeleteUserState userId) sm = deleteUserState e userId sm"
| "apply_mutation e ClearAllSessions sm = clearAllSessions e sm"

section \<open>The context of an event\<close>

text \<open>
  What an event handler works on: the session manager, the state the middleware attached
  to the context (\<open>ctx.userState\<close>, \<open>None\<close> when nothing is attached), and the
  calls made to the collaborators so far, oldest first. The sender's id
  (\<open>ctx.from?.id\<close>) is an argument of every handler: \<open>None\<close> when the event has no
  sender.
\<close>

datatype event =
    DeleteMessage int
  | LogDeleteFailure int
  | ReplyWithMarkdown jsstring "keyboard option"
  | GetSimilarDiagnoses jsstring
  | GetSection jsstring jsstring

record world =
  manager :: SessionManager
  userState :: "UserState option"
  trace :: "event list"

text \<open>A promise resolves or rejects.\<close>

datatype outcome = Resolved | Rejected

text \<open>
  The guard \<open>!userId\<close>: the id is falsy when it is absent or zero. \<open>userId_of\<close> is the
  id when it passes the guard.
\<close>

definition userId_of :: "int option \<Rightarrow> int option" where
  "userId_of sender = (case sender of None \<Rightarrow> None | Some n \<Rightarrow> if n = 0 then None else Some n)"

text \<open>
  The middleware (lines 139-154): with a sender, the stored state or a fresh one is
  attached. The synchronisation of the client record is left out: it touches the
  database only and its failure is swallowed.
\<close>

definition fresh_state :: UserState where
  "fresh_state = \<lparr>diagnosis = None, sections = None, messageIds = Some [],
     callbackMap = Some (PlainObject []), currentSection = None\<rparr>"

definition middleware :: "int option \<Rightarrow> world \<Rightarrow> world" where
  "middleware sender w =
     (case sender of
        None \<Rightarrow> w
      | Some n \<Rightarrow>
          w\<lparr>userState := Some (case getUserState (manager w) n of
                                  None \<Rightarrow> fresh_state
                                | Some s \<Rightarrow> s)\<rparr>)"

section \<open>The hash index and the callback map (lines 255-281)\<close>

definition generateHash :: "env \<Rightarrow> jsstring \<Rightarrow> jsstring" where
  "generateHash e text = take 32 (sha256_hex e text)"

datatype kind = DiagnosisKind | SectionKind

fun kind_name :: "kind \<Rightarrow> jsstring" where
  "kind_name DiagnosisKind = ascii ''diagnosis''"
| "kind_name SectionKind = ascii ''section''"

definition storeCallbackMapping ::
  "env \<Rightarrow> int option \<Rightarrow> jsstring \<Rightarrow> kind \<Rightarrow> world \<Rightarrow> jsstring \<times> world" where
  "storeCallbackMapping e sender originalValue k w =
     (case userId_of sender of
        None \<Rightarrow> ([], w)
      | Some userId \<Rightarrow>
          (case userState w of
             None \<Rightarrow> ([], w)
           | Some s \<Rightarrow>
               let hash = generateHash e originalValue;
                   key = kind_name k @ ascii '':'' @ hash;
                   m = set_property
                         (case callbackMap s of None \<Rightarrow> PlainObject [] | Some existing \<Rightarrow> existing)
                         key originalValue
               in (hash,
                   w\<lparr>userState := Some (s\<lparr>callbackMap := Some m\<rparr>),
                     manager := updateUserState e userId
                       (names_nothing\<lparr>named_callbackMap := Some (Some m)\<rparr>) (manager w)\<rparr>)))"

text \<open>
  \<open>(userId && ctx.userState?.callbackMap?.[callbackData]) || null\<close>: a missing key and
  an empty string both give \<open>null\<close>.
\<close>

definition resolveCallbackMapping :: "int option \<Rightarrow> jsstring \<Rightarrow> world \<Rightarrow> jsstring option" where
  "resolveCallbackMapping sender callbackData w =
     (case userId_of sender of
        None \<Rightarrow> None
      | Some userId \<Rightarrow>
          (case userState w of
             None \<Rightarrow> None
           | Some s \<Rightarrow>
               (case callbackMap s of
                  None \<Rightarrow> None
                | Some m \<Rightarrow>
                    (case get_property m callbackData of
                       None \<Rightarrow> None
                     | Some v \<Rightarrow> if v = [] then None else Some v))))"

section \<open>The displayed messages (lines 283-318)\<close>

text \<open>The loop over the message ids: a delete that fails is logged and the loop goes on.\<close>

fun deleteMessages :: "env \<Rightarrow> int list \<Rightarrow> event list" where
  "deleteMessages e [] = []"
| "deleteMessages e (messageId # rest) =
     (if deleteMessage_ok e messageId then [DeleteMessage messageId]
      else [DeleteMessage messageId, LogDeleteFailure messageId]) @ deleteMessages e rest"

definition clearPreviousMessages :: "env \<Rightarrow> int option \<Rightarrow> world \<Rightarrow> world" where
  "clearPreviousMessages e sender w =
     (case userId_of sender of
        None \<Rightarrow> w
      | Some userId \<Rightarrow>
          (case userState w of
             None \<Rightarrow> w
           | Some s \<Rightarrow>
               (case messageIds s of
                  None \<Rightarrow> w
                | Some ids \<Rightarrow>
                    if ids = [] then w
                    else w\<lparr>trace := trace w @ deleteMessages e ids,
                           manager := updateUserState e userId
                             (names_nothing\<lparr>named_messageIds := Some (Some []),
                                named_callbackMap := Some (callbackMap s)\<rparr>) (manager w),
                           userState := Some (s\<lparr>messageIds := Some []\<rparr>)\<rparr>)))"

definition saveMessageId :: "env \<Rightarrow> int option \<Rightarrow> int \<Rightarrow> world \<Rightarrow> world" where
  "saveMessageId e sender messageId w =
     (case userId_of sender of
        None \<Rightarrow> w
      | Some userId \<Rightarrow>
          (case userState w of
             None \<Rightarrow> w
           | Some s \<Rightarrow>
               let ids = (case messageIds s of None \<Rightarrow> [] | Some ids \<Rightarrow> ids) @ [messageId]
               in w\<lparr>manager := updateUserState e userId
                        (names_nothing\<lparr>named_messageIds := Some (Some ids)\<rparr>) (manager w),
                      userState := Some (s\<lparr>messageIds := Some ids\<rparr>)\<rparr>))"

text \<open>
  The pattern of every reply: \<open>const message = await ctx.replyWithMarkdown(text, markup);
  this.saveMessageId(ctx, message.message_id)\<close>. When the transport rejects, the
  handler's promise rejects and the id is not saved.
\<close>

definition reply_and_save ::
  "env \<Rightarrow> int option \<Rightarrow> jsstring \<Rightarrow> keyboard option \<Rightarrow> world \<Rightarrow> outcome \<times> world" where
  "reply_and_save e sender text markup w =
     (let w1 = w\<lparr>trace := trace w @ [ReplyWithMarkdown text markup]\<rparr>
      in case sent_message_id e text markup of
           None \<Rightarrow> (Rejected, w1)
         | Some messageId \<Rightarrow> (Resolved, saveMessageId e sender messageId w1))"

definition new_diagnosis_button :: button where
  "new_diagnosis_button = Callback txt_new_diagnosis (ascii ''new_diagnosis'')"

definition sendErrorMessage :: "env \<Rightarrow> int option \<Rightarrow> jsstring \<Rightarrow> world \<Rightarrow> outcome \<times> world" where
  "sendErrorMessage e sender message w =
     reply_and_save e sender (message @ txt_try_again) (Some [[new_diagnosis_button]]) w"

definition sendSearchError :: "env \<Rightarrow> int option \<Rightarrow> world \<Rightarrow> outcome \<times> world" where
  "sendSearchError e sender w =
     reply_and_save e sender txt_search_error (Some [[new_diagnosis_button]]) w"

definition sendLoadError :: "env \<Rightarrow> int option \<Rightarrow> world \<Rightarrow> outcome \<times> world" where
  "sendLoadError e sender w =
     reply_and_save e sender txt_load_error (Some [[new_diagnosis_button]]) w"

definition showNoResultsFound :: "env \<Rightarrow> int option \<Rightarrow> world \<Rightarrow> outcome \<times> world" where
  "showNoResultsFound e sender w =
     reply_and_save e sender txt_no_results (Some [[new_diagnosis_button]]) w"

section \<open>The diagnosis search (lines 340-390)\<close>

text \<open>
  \<open>String.prototype.lastIndexOf\<close> (the last position where the argument occurs, or -1)
  and \<open>Array.prototype.indexOf\<close> (the first index of an equal element, or -1).
\<close>

fun last_match :: "nat \<Rightarrow> jsstring \<Rightarrow> jsstring \<Rightarrow> int" where
  "last_match 0 s t = (if take (length t) s = t then 0 else - 1)"
| "last_match (Suc k) s t =
     (if take (length t) (drop (Suc k) s) = t then int (Suc k) else last_match k s t)"

definition lastIndexOf :: "jsstring \<Rightarrow> jsstring \<Rightarrow> int" where
  "lastIndexOf s t = (if length t \<le> length s then last_match (length s - length t) s t else - 1)"

fun indexOf :: "'a list \<Rightarrow> 'a \<Rightarrow> int" where
  "indexOf [] x = - 1"
| "indexOf (y # ys) x =
     (if y = x then 0 else (let i = indexOf ys x in if i < 0 then - 1 else i + 1))"

text \<open>
  The filter of line 371. The receiver of \<open>lastIndexOf\<close> is the string
  \<open>diagnosis\<close>, the receiver of \<open>indexOf\<close> is the array \<open>diagnoses\<close>.
\<close>

definition correctDiagnoses :: "jsstring list \<Rightarrow> jsstring list" where
  "correctDiagnoses diagnoses =
     filter (\<lambda>d. lastIndexOf d d = indexOf diagnoses d) diagnoses"

text \<open>
  \<open>Promise.all(items.map(async (item) => { const hash = await
  this.storeCallbackMapping(ctx, item, kind); return build(item, hash); }))\<close>:
  \<open>storeCallbackMapping\<close> never awaits, so the mappings are stored one after the
  other in the order of the list.
\<close>

fun store_each ::
  "(jsstring \<Rightarrow> jsstring \<Rightarrow> 'b) \<Rightarrow> env \<Rightarrow> int option \<Rightarrow> kind \<Rightarrow> jsstring list \<Rightarrow> world
     \<Rightarrow> 'b list \<times> world" where
  "store_each build e sender k [] w = ([], w)"
| "store_each build e sender k (item # rest) w =
     (case storeCallbackMapping e sender item k w of
        (hash, w1) \<Rightarrow>
          (case store_each build e sender k rest w1 of
             (built, w2) \<Rightarrow> (build item hash # built, w2)))"

definition diagnosis_row :: "jsstring \<Rightarrow> jsstring \<Rightarrow> button list" where
  "diagnosis_row d hash = [Callback d (ascii ''select_diagnosis:'' @ hash)]"

definition showDiagnosisOptions ::
  "env \<Rightarrow> int option \<Rightarrow> jsstring list \<Rightarrow> world \<Rightarrow> outcome \<times> world" where
  "showDiagnosisOptions e sender diagnoses w =
     (case store_each diagnosis_row e sender DiagnosisKind (correctDiagnoses diagnoses) w of
        (buttons, w1) \<Rightarrow>
          reply_and_save e sender txt_found (Some (buttons @ [[new_diagnosis_button]])) w1)"

text \<open>The body of the \<open>try\<close> block of \<open>handleDiagnosisInput\<close>, then the function with its \<open>catch\<close>.\<close>

definition handleDiagnosisInput_try ::
  "env \<Rightarrow> int option \<Rightarrow> jsstring \<Rightarrow> world \<Rightarrow> outcome \<times> world" where
  "handleDiagnosisInput_try e sender userInput w =
     (case reply_and_save e sender txt_searching None w of
        (Rejected, w1) \<Rightarrow> (Rejected, w1)
      | (Resolved, w1) \<Rightarrow>
          (let w2 = w1\<lparr>trace := trace w1 @ [GetSimilarDiagnoses userInput]\<rparr>
           in case similar_diagnoses e userInput of
                None \<Rightarrow> (Rejected, w2)
              | Some similarDiagnoses \<Rightarrow>
                  if length similarDiagnoses = 0 then showNoResultsFound e sender w2
                  else showDiagnosisOptions e sender similarDiagnoses w2))"

definition handleDiagnosisInput ::
  "env \<Rightarrow> int option \<Rightarrow> jsstring \<Rightarrow> world \<Rightarrow> outcome \<times> world" where
  "handleDiagnosisInput e sender userInput w =
     (case userId_of sender of
        None \<Rightarrow> (Resolved, w)
      | Some userId \<Rightarrow>
          (case handleDiagnosisInput_try e sender userInput w of
             (Rejected, w1) \<Rightarrow> sendSearchError e sender w1
           | (Resolved, w1) \<Rightarrow> (Resolved, w1)))"

section \<open>The section list (lines 443-473)\<close>

definition priority :: "jsstring \<Rightarrow> int" where
  "priority a = (if a = Lechenie \<or> a = Diagnostika then 0 else 1)"

text \<open>
  \<open>Array.prototype.sort\<close> with a comparator is a stable sort: the insertion sort that
  puts an element before the first one the comparator ranks strictly after it.
\<close>

fun insert_by :: "('a \<Rightarrow> 'a \<Rightarrow> int) \<Rightarrow> 'a \<Rightarrow> 'a list \<Rightarrow> 'a list" where
  "insert_by cmp x [] = [x]"
| "insert_by cmp x (y # ys) = (if cmp x y \<le> 0 then x # y # ys else y # insert_by cmp x ys)"

definition sort_by :: "('a \<Rightarrow> 'a \<Rightarrow> int) \<Rightarrow> 'a list \<Rightarrow> 'a list" where
  "sort_by cmp xs = foldr (insert_by cmp) xs []"

definition correctSections :: "jsstring list \<Rightarrow> jsstring list" where
  "correctSections secs =
     sort_by (\<lambda>a b. priority a - priority b) (filter (\<lambda>s. s \<noteq> MKB) secs)"

text \<open>The loop \<open>for (i = 0; i < n; i += 2) keyboard.push(buttons.slice(i, i + 2))\<close>.\<close>

fun pair_rows :: "'a list \<Rightarrow> 'a list list" where
  "pair_rows [] = []"
| "pair_rows [a] = [[a]]"
| "pair_rows (a # b # rest) = [a, b] # pair_rows rest"

definition section_button :: "jsstring \<Rightarrow> jsstring \<Rightarrow> button" where
  "section_button s hash = Callback s (ascii ''select_section:'' @ hash)"

definition displaySectionsList ::
  "env \<Rightarrow> int option \<Rightarrow> jsstring \<Rightarrow> jsstring list \<Rightarrow> world \<Rightarrow> outcome \<times> world" where
  "displaySectionsList e sender d secs w =
     (case store_each section_button e sender SectionKind (correctSections secs) w of
        (sectionButtons, w1) \<Rightarrow>
          reply_and_save e sender (ascii ''*'' @ d @ ascii ''*'' @ txt_available_sections)
            (Some (pair_rows sectionButtons @ [[new_diagnosis_button]])) w1)"

section \<open>The selection of a section (lines 226-238 and 475-508)\<close>

text \<open>The white space of a regular expression's \<open>\s\<close>.\<close>

definition is_space :: "16 word \<Rightarrow> bool" where
  "is_space c = (c \<in> {9, 10, 11, 12, 13, 32, 160, 5760, 8232, 8233, 8239, 8287, 12288, 65279}
                 \<or> (8192 \<le> c \<and> c \<le> 8202))"

text \<open>\<open>content.replace(/###\s/g, "")\<close> and \<open>.replace(/###/g, "")\<close>; 35 is the number sign.\<close>

fun remove_marks_with_space :: "jsstring \<Rightarrow> jsstring" where
  "remove_marks_with_space (a # b # c # d # rest) =
     (if a = 35 \<and> b = 35 \<and> c = 35 \<and> is_space d then remove_marks_with_space rest
      else a # remove_marks_with_space (b # c # d # rest))"
| "remove_marks_with_space s = s"

fun remove_marks :: "jsstring \<Rightarrow> jsstring" where
  "remove_marks (a # b # c # rest) =
     (if a = 35 \<and> b = 35 \<and> c = 35 then remove_marks rest
      else a # remove_marks (b # c # rest))"
| "remove_marks s = s"

definition section_keyboard :: keyboard where
  "section_keyboard =
     [[Callback txt_back_to_sections (ascii ''back_to_sections'')], [new_diagnosis_button]]"

text \<open>The diagnosis of the stored state, when the guard \<open>!userState?.diagnosis\<close> lets it pass.\<close>

definition stored_diagnosis :: "SessionManager \<Rightarrow> int \<Rightarrow> jsstring option" where
  "stored_diagnosis sm userId =
     (case getUserState sm userId of
        None \<Rightarrow> None
      | Some s \<Rightarrow>
          (case diagnosis s of
             None \<Rightarrow> None
           | Some d \<Rightarrow> if d = [] then None else Some d))"

definition processSectionSelection ::
  "env \<Rightarrow> int option \<Rightarrow> jsstring \<Rightarrow> world \<Rightarrow> outcome \<times> world" where
  "processSectionSelection e sender sectionTitle w =
     (case userId_of sender of
        None \<Rightarrow> (Resolved, w)
      | Some userId \<Rightarrow>
          (case stored_diagnosis (manager w) userId of
             None \<Rightarrow> sendErrorMessage e sender txt_info_not_found w
           | Some d \<Rightarrow>
               (let w1 = w\<lparr>manager := updateUserState e userId
                            (names_nothing\<lparr>named_currentSection := Some (Some sectionTitle)\<rparr>)
                            (manager w)\<rparr>
                in case reply_and_save e sender
                          (ascii ''*'' @ sectionTitle @ ascii ''*'' @ txt_loading_content) None w1 of
                     (Rejected, w2) \<Rightarrow> (Rejected, w2)
                   | (Resolved, w2) \<Rightarrow>
                       (let w3 = w2\<lparr>trace := trace w2 @ [GetSection d sectionTitle]\<rparr>
                        in case section_content e d sectionTitle of
                             None \<Rightarrow> sendLoadError e sender w3
                           | Some content \<Rightarrow>
                               (case reply_and_save e sender
                                       (ascii ''*'' @ sectionTitle @ ascii ''*'' @ [10, 10]
                                          @ remove_marks (remove_marks_with_space content))
                                       (Some section_keyboard) w3 of
                                  (Rejected, w4) \<Rightarrow> sendLoadError e sender w4
                                | (Resolved, w4) \<Rightarrow> (Resolved, w4))))))"

text \<open>\<open>hash\<close> is the group the pattern \<open>/select_section:(.+)/\<close> captured from the callback data.\<close>

definition handleSectionSelection ::
  "env \<Rightarrow> int option \<Rightarrow> jsstring \<Rightarrow> world \<Rightarrow> outcome \<times> world" where
  "handleSectionSelection e sender hash w =
     (let w1 = clearPreviousMessages e sender w
      in case resolveCallbackMapping sender (ascii ''section:'' @ hash) w1 of
           None \<Rightarrow> sendErrorMessage e sender txt_section_not_found w1
         | Some sectionTitle \<Rightarrow> processSectionSelection e sender sectionTitle w1)"

section \<open>Process start (lines 549-570)\<close>

text \<open>
  \<open>process.env\<close> after \<open>config()\<close>, from variable names to values. The start either
  exits with a code after printing a diagnostic, or constructs the bot from the
  settings and launches it. \<open>DB_PORT\<close> is kept as the string handed to \<open>Number\<close>.
\<close>

record settings =
  token :: jsstring
  apiBaseURL :: jsstring
  dbHost :: jsstring
  dbPort :: jsstring
  dbPassword :: jsstring
  dbDatabase :: jsstring
  dbUser :: jsstring

datatype start = Exit int jsstring | Launched settings

text \<open>\<open>process.env.NAME || fallback\<close>: an absent and an empty value both give the fallback.\<close>

definition or_else :: "jsstring option \<Rightarrow> jsstring \<Rightarrow> jsstring" where
  "or_else v fallback = (case v of None \<Rightarrow> fallback | Some s \<Rightarrow> if s = [] then fallback else s)"

definition main :: "(string \<Rightarrow> jsstring option) \<Rightarrow> start" where
  "main process_env =
     (let BOT_TOKEN = or_else (process_env ''BOT_TOKEN'') [];
          API_BASE_URL = or_else (process_env ''API_BASE_URL'') (ascii ''http://localhost'');
          DB_HOST = or_else (process_env ''DB_HOST'') [];
          DB_PORT = or_else (process_env ''DB_PORT'') [];
          DB_PASSWORD = or_else (process_env ''DB_PASSWORD'') [];
          DB_DATABASE = or_else (process_env ''DB_DATABASE'') [];
          DB_USER = or_else (process_env ''DB_USER'') []
      in if BOT_TOKEN = [] then Exit 1 (ascii ''Please set BOT_TOKEN environment variable'')
         else if API_BASE_URL = [] then Exit 1 (ascii ''Please set API_BASE_URL environment variable'')
         else Launched \<lparr>token = BOT_TOKEN, apiBaseURL = API_BASE_URL, dbHost = DB_HOST,
                dbPort = DB_PORT, dbPassword = DB_PASSWORD, dbDatabase = DB_DATABASE,
                dbUser = DB_USER\<rparr>)"

section \<open>Values for the examples\<close>

text \<open>
  An environment, a state and a store to run the definitions on. The digest of the
  example environment is a stand-in that keeps the example strings apart; message 2
  cannot be deleted.
\<close>

definition example_env :: env where
  "example_env =
     \<lparr>sha256_hex = (\<lambda>text. text),
      deleteMessage_ok = (\<lambda>messageId. messageId \<noteq> 2),
      sent_message_id = (\<lambda>text markup. Some 100),
      similar_diagnoses = (\<lambda>q. Some [ascii ''A'', ascii ''B'']),
      section_content = (\<lambda>d s. Some (ascii ''### Rest'')),
      writeFileSync_ok = (\<lambda>doc. True)\<rparr>"

definition example_state :: UserState where
  "example_state =
     \<lparr>diagnosis = Some (ascii ''flu''), sections = Some [ascii ''Y''], messageIds = Some [1, 2],
      callbackMap = Some (PlainObject [(ascii ''section:X'', ascii ''X'')]),
      currentSection = None\<rparr>"

definition example_manager :: SessionManager where
  "example_manager = \<lparr>sessionData = [7 \<mapsto> example_state], sessionFile = Missing\<rparr>"

definition example_update :: UserState_partial where
  "example_update = names_nothing\<lparr>named_messageIds := Some (Some []), named_callbackMap := Some None\<rparr>"

definition example_replacement :: UserState_partial where
  "example_replacement =
     names_nothing\<lparr>named_callbackMap := Some (Some (PlainObject [(ascii ''section:W'', ascii ''W'')]))\<rparr>"


definition rejecting_env :: env where
  "rejecting_env = example_env\<lparr>sent_message_id := (\<lambda>text markup. None)\<rparr>"

text \<open>
  A session file in the array encoding, and the context of the first event of a
  sender after the process has started from a file.
\<close>

definition array_encoded_file :: session_file where
  "array_encoded_file =
     Document [7 \<mapsto> \<lparr>diagnosis = None, sections = None, messageIds = Some [],
       callbackMap = Some (ArrayEncoding [(ascii ''diagnosis:A'', ascii ''A'')]),
       currentSection = None\<rparr>]"

definition after_start :: "session_file \<Rightarrow> int option \<Rightarrow> world" where
  "after_start file sender =
     middleware sender \<lparr>manager = new_SessionManager file, userState = None, trace = []\<rparr>"

section \<open>The canonical encoding\<close>

text \<open>
  The encoding the implementation writes for a state of the declared type: the callback
  map is a plain object and goes to the file as a JSON object. A store is canonical
  when no state of it holds a \<open>Map\<close>, and a mutation is canonical when its argument
  holds none.
\<close>

definition plain_callbackMap :: "callback_map option \<Rightarrow> bool" where
  "plain_callbackMap m = (case m of Some (MapObject es ps) \<Rightarrow> False | _ \<Rightarrow> True)"

definition plain_state :: "UserState \<Rightarrow> bool" where
  "plain_state s = plain_callbackMap (callbackMap s)"

fun plain_mutation :: "mutation \<Rightarrow> bool" where
  "plain_mutation (SetUserState userId s) = plain_state s"
| "plain_mutation (UpdateUserState userId p) =
     (case named_callbackMap p of None \<Rightarrow> True | Some m \<Rightarrow> plain_callbackMap m)"
| "plain_mutation (DeleteUserState userId) = True"
| "plain_mutation ClearAllSessions = True"

definition plain_store :: "(int \<Rightarrow> UserState option) \<Rightarrow> bool" where
  "plain_store sd = (\<forall>userId s. sd userId = Some s \<longrightarrow> plain_state s)"

section \<open>Notions used in the statements\<close>

text \<open>
  The message ids of a state (an absent state or field has none), the worlds of the
  examples, the own property of the attached callback map under a key, the calls to
  the content API among the events, and the events of the section handler.
\<close>

definition messageIds_of :: "UserState option \<Rightarrow> int list" where
  "messageIds_of st =
     (case st of None \<Rightarrow> [] | Some s \<Rightarrow> (case messageIds s of None \<Rightarrow> [] | Some ids \<Rightarrow> ids))"

definition start_world :: world where
  "start_world = \<lparr>manager = new_SessionManager Missing, userState = None, trace = []\<rparr>"

definition example_world :: world where
  "example_world = \<lparr>manager = example_manager, userState = Some example_state, trace = []\<rparr>"

definition example_world_without_diagnosis :: world where
  "example_world_without_diagnosis =
     \<lparr>manager = \<lparr>sessionData = [7 \<mapsto> example_state\<lparr>diagnosis := None\<rparr>], sessionFile = Missing\<rparr>,
      userState = Some (example_state\<lparr>diagnosis := None\<rparr>), trace = []\<rparr>"

definition callback_lookup :: "world \<Rightarrow> jsstring \<Rightarrow> jsstring option" where
  "callback_lookup w key =
     (case userState w of
        None \<Rightarrow> None
      | Some s \<Rightarrow> (case callbackMap s of None \<Rightarrow> None | Some m \<Rightarrow> get_property m key))"

fun is_api_call :: "event \<Rightarrow> bool" where
  "is_api_call (GetSimilarDiagnoses q) = True"
| "is_api_call (GetSection d s) = True"
| "is_api_call (DeleteMessage m) = False"
| "is_api_call (LogDeleteFailure m) = False"
| "is_api_call (ReplyWithMarkdown t k) = False"

fun section_fetches :: "event list \<Rightarrow> (jsstring \<times> jsstring) list" where
  "section_fetches [] = []"
| "section_fetches (GetSection d s # evs) = (d, s) # section_fetches evs"
| "section_fetches (ev # evs) = section_fetches evs"

definition not_found_reply :: event where
  "not_found_reply =
     ReplyWithMarkdown (txt_section_not_found @ txt_try_again) (Some [[new_diagnosis_button]])"

definition info_not_found_reply :: event where
  "info_not_found_reply =
     ReplyWithMarkdown (txt_info_not_found @ txt_try_again) (Some [[new_diagnosis_button]])"

definition load_error_reply :: event where
  "load_error_reply = ReplyWithMarkdown txt_load_error (Some [[new_diagnosis_button]])"

definition loading_text :: "jsstring \<Rightarrow> jsstring" where
  "loading_text t = ascii ''*'' @ t @ ascii ''*'' @ txt_loading_content"

definition content_text :: "jsstring \<Rightarrow> jsstring \<Rightarrow> jsstring" where
  "content_text t content =
     ascii ''*'' @ t @ ascii ''*'' @ [10, 10] @ remove_marks (remove_marks_with_space content)"

text \<open>What \<open>processSectionSelection\<close> calls after the loading notice was sent.\<close>

definition fetch_and_display :: "env \<Rightarrow> jsstring \<Rightarrow> jsstring \<Rightarrow> event list" where
  "fetch_and_display e d t =
     GetSection d t #
     (case section_content e d t of
        None \<Rightarrow> [load_error_reply]
      | Some content \<Rightarrow>
          ReplyWithMarkdown (content_text t content) (Some section_keyboard) #
          (case sent_message_id e (content_text t content) (Some section_keyboard) of
             None \<Rightarrow> [load_error_reply]
           | Some m \<Rightarrow> []))"

text \<open>
  What the document holds for a state: the fields as they are, a plain callback map as a
  JSON object of its properties, a \<open>Map\<close> as the array of its entries.
\<close>

definition holds_state :: "SerializedState \<Rightarrow> UserState \<Rightarrow> bool" where
  "holds_state written st =
     (diagnosis written = diagnosis st \<and> sections written = sections st
      \<and> messageIds written = messageIds st \<and> currentSection written = currentSection st
      \<and> callbackMap written =
           (case callbackMap st of
              None \<Rightarrow> None
            | Some (PlainObject ps) \<Rightarrow> Some (ObjectEncoding ps)
            | Some (MapObject es ps) \<Rightarrow> Some (ArrayEncoding es)))"

definition holds_store :: "document \<Rightarrow> (int \<Rightarrow> UserState option) \<Rightarrow> bool" where
  "holds_store doc sd =
     (\<forall>userId. case sd userId of
                  None \<Rightarrow> doc userId = None
                | Some st \<Rightarrow> (\<exists>written. doc userId = Some written \<and> holds_state written st))"


text \<open>
  The prioritized titles, and the buttons \<open>displaySectionsList\<close> builds (its local
  \<open>sectionButtons\<close>).
\<close>

definition prioritized :: "jsstring \<Rightarrow> bool" where
  "prioritized s = (s = Lechenie \<or> s = Diagnostika)"

definition sectionButtons :: "env \<Rightarrow> int option \<Rightarrow> jsstring list \<Rightarrow> world \<Rightarrow> button list" where
  "sectionButtons e sender secs w =
     fst (store_each section_button e sender SectionKind (correctSections secs) w)"

section \<open>The store: merge and persistence\<close>

lemma sessionData_saveSessions [simp]: "sessionData (saveSessions e sm) = sessionData sm"
  by (simp add: saveSessions_def)

lemma sessionData_updateUserState:
  "sessionData (updateUserState e userId p sm) =
     (sessionData sm)(userId \<mapsto> spread (case sessionData sm userId of None \<Rightarrow> empty_state | Some s \<Rightarrow> s) p)"
  by (simp add: updateUserState_def saveSessions_def Let_def)

lemma holds_state_serializableState: "holds_state (serializableState st) st"
  by (simp add: holds_state_def serializableState_def split: option.splits callback_map.splits)

lemma holds_store_serializableData: "holds_store (serializableData sd) sd"
  by (simp add: holds_store_def serializableData_def holds_state_serializableState
      split: option.splits)

lemma holds_state_restore:
  assumes "holds_state written st" and "plain_state st"
  shows "restore_state written = st"
proof -
  from assms have "map_option restore_callbackMap (callbackMap written) = callbackMap st"
    by (auto simp: holds_state_def plain_state_def plain_callbackMap_def
        split: option.splits callback_map.splits)
  with assms(1) show ?thesis by (simp add: holds_state_def restore_state_def)
qed

text \<open>
  Claim C9. \<open>updateUserState\<close> merges the partial state into the user's state, or into
  an empty state when the user has none: a field the partial names gets the partial's
  value as a whole, a field it does not name keeps its value, and the states of other
  users are untouched. The store is written to the file in the same call: when the
  write succeeds the file is a document that holds every state of the store, and for
  the user it holds the merged state field by field (the callback map as a JSON object
  of its properties); loading the file gives the user the merged state back. A write
  that fails leaves the file as it was.
\<close>

theorem updateUserState_shallow_merge:
  assumes "existing = (case sessionData sm userId of None \<Rightarrow> empty_state | Some s \<Rightarrow> s)"
    and "sm' = updateUserState e userId update sm"
  shows "\<exists>merged. sessionData sm' userId = Some merged
     \<and> (\<forall>v. named_diagnosis update = Some v \<longrightarrow> diagnosis merged = v)
     \<and> (named_diagnosis update = None \<longrightarrow> diagnosis merged = diagnosis existing)
     \<and> (\<forall>v. named_sections update = Some v \<longrightarrow> sections merged = v)
     \<and> (named_sections update = None \<longrightarrow> sections merged = sections existing)
     \<and> (\<forall>v. named_messageIds update = Some v \<longrightarrow> messageIds merged = v)
     \<and> (named_messageIds update = None \<longrightarrow> messageIds merged = messageIds existing)
     \<and> (\<forall>v. named_callbackMap update = Some v \<longrightarrow> callbackMap merged = v)
     \<and> (named_callbackMap update = None \<longrightarrow> callbackMap merged = callbackMap existing)
     \<and> (\<forall>v. named_currentSection update = Some v \<longrightarrow> currentSection merged = v)
     \<and> (named_currentSection update = None \<longrightarrow> currentSection merged = currentSection existing)
     \<and> (\<forall>other. other \<noteq> userId \<longrightarrow> sessionData sm' other = sessionData sm other)
     \<and> (writeFileSync_ok e (serializableData (sessionData sm'))
          \<longrightarrow> (\<exists>doc written. sessionFile sm' = Document doc
                 \<and> holds_store doc (sessionData sm')
                 \<and> doc userId = Some written
                 \<and> diagnosis written = diagnosis merged
                 \<and> sections written = sections merged
                 \<and> messageIds written = messageIds merged
                 \<and> currentSection written = currentSection merged
                 \<and> callbackMap written =
                      (case callbackMap merged of
                         None \<Rightarrow> None
                       | Some (PlainObject ps) \<Rightarrow> Some (ObjectEncoding ps)
                       | Some (MapObject es ps) \<Rightarrow> Some (ArrayEncoding es))
                 \<and> (plain_state merged
                      \<longrightarrow> sessionData (new_SessionManager (sessionFile sm')) userId = Some merged)))
     \<and> (\<not> writeFileSync_ok e (serializableData (sessionData sm'))
          \<longrightarrow> sessionFile sm' = sessionFile sm)"
proof -
  let ?merged = "spread existing update"
  have sd: "sessionData sm' = (sessionData sm)(userId \<mapsto> ?merged)"
    by (simp add: assms sessionData_updateUserState)
  have merge: "sessionData sm' userId = Some ?merged
     \<and> (\<forall>v. named_diagnosis update = Some v \<longrightarrow> diagnosis ?merged = v)
     \<and> (named_diagnosis update = None \<longrightarrow> diagnosis ?merged = diagnosis existing)
     \<and> (\<forall>v. named_sections update = Some v \<longrightarrow> sections ?merged = v)
     \<and> (named_sections update = None \<longrightarrow> sections ?merged = sections existing)
     \<and> (\<forall>v. named_messageIds update = Some v \<longrightarrow> messageIds ?merged = v)
     \<and> (named_messageIds update = None \<longrightarrow> messageIds ?merged = messageIds existing)
     \<and> (\<forall>v. named_callbackMap update = Some v \<longrightarrow> callbackMap ?merged = v)
     \<and> (named_callbackMap update = None \<longrightarrow> callbackMap ?merged = callbackMap existing)
     \<and> (\<forall>v. named_currentSection update = Some v \<longrightarrow> currentSection ?merged = v)
     \<and> (named_currentSection update = None \<longrightarrow> currentSection ?merged = currentSection existing)
     \<and> (\<forall>other. other \<noteq> userId \<longrightarrow> sessionData sm' other = sessionData sm other)"
    by (simp add: sd spread_def)
  have fl: "sessionFile sm' =
      (if writeFileSync_ok e (serializableData (sessionData sm'))
       then Document (serializableData (sessionData sm')) else sessionFile sm)"
    by (simp add: assms(2) updateUserState_def saveSessions_def Let_def)
  have persisted: "\<exists>doc written. sessionFile sm' = Document doc
                 \<and> holds_store doc (sessionData sm')
                 \<and> doc userId = Some written
                 \<and> diagnosis written = diagnosis ?merged
                 \<and> sections written = sections ?merged
                 \<and> messageIds written = messageIds ?merged
                 \<and> currentSection written = currentSection ?merged
                 \<and> callbackMap written =
                      (case callbackMap ?merged of
                         None \<Rightarrow> None
                       | Some (PlainObject ps) \<Rightarrow> Some (ObjectEncoding ps)
                       | Some (MapObject es ps) \<Rightarrow> Some (ArrayEncoding es))
                 \<and> (plain_state ?merged
                      \<longrightarrow> sessionData (new_SessionManager (sessionFile sm')) userId = Some ?merged)"
    if ok: "writeFileSync_ok e (serializableData (sessionData sm'))"
  proof -
    let ?doc = "serializableData (sessionData sm')"
    from ok fl have f: "sessionFile sm' = Document ?doc" by simp
    have d: "?doc userId = Some (serializableState ?merged)"
      by (simp add: serializableData_def sd)
    have h: "holds_state (serializableState ?merged) ?merged"
      by (rule holds_state_serializableState)
    have r: "plain_state ?merged \<longrightarrow>
        sessionData (new_SessionManager (sessionFile sm')) userId = Some ?merged"
      by (simp add: f new_SessionManager_def loadSessions_def d holds_state_restore [OF h])
    from f d h r holds_store_serializableData [of "sessionData sm'"] show ?thesis
      unfolding holds_state_def by blast
  qed
  from merge persisted fl show ?thesis by (cases "writeFileSync_ok e (serializableData (sessionData sm'))") auto
qed

theorem updateUserState_shallow_merge_witness:
  "(case sessionFile (updateUserState example_env 7 example_update example_manager) of
      Document doc \<Rightarrow>
        doc 7 = Some \<lparr>diagnosis = Some (ascii ''flu''), sections = Some [ascii ''Y''],
                  messageIds = Some [], callbackMap = None, currentSection = None\<rparr>
    | Missing \<Rightarrow> False
    | Unparsable \<Rightarrow> False)
   \<and> sessionData (updateUserState example_env 7 example_update example_manager) 7
       = Some \<lparr>diagnosis = Some (ascii ''flu''), sections = Some [ascii ''Y''],
                messageIds = Some [], callbackMap = None, currentSection = None\<rparr>
   \<and> sessionData (new_SessionManager
         (sessionFile (updateUserState example_env 7 example_update example_manager))) 7
       = Some \<lparr>diagnosis = Some (ascii ''flu''), sections = Some [ascii ''Y''],
                messageIds = Some [], callbackMap = None, currentSection = None\<rparr>
   \<and> sessionData (updateUserState example_env 7 example_update example_manager) 8
       = sessionData example_manager 8
   \<and> map_option callbackMap (sessionData example_manager 7)
       = Some (Some (PlainObject [(ascii ''section:X'', ascii ''X'')]))
   \<and> map_option callbackMap
         (sessionData (updateUserState example_env 7 example_replacement example_manager) 7)
       = Some (Some (PlainObject [(ascii ''section:W'', ascii ''W'')]))
   \<and> (case sessionFile (updateUserState example_env 7 example_replacement example_manager) of
         Document doc \<Rightarrow>
           map_option callbackMap (doc 7)
             = Some (Some (ObjectEncoding [(ascii ''section:W'', ascii ''W'')]))
           \<and> map_option messageIds (doc 7) = Some (Some [1, 2])
       | Missing \<Rightarrow> False
       | Unparsable \<Rightarrow> False)"
proof -
  let ?merged = "\<lparr>diagnosis = Some (ascii ''flu''), sections = Some [ascii ''Y''],
                messageIds = Some [], callbackMap = None, currentSection = None\<rparr> :: UserState"
  have ok: "\<And>doc. writeFileSync_ok example_env doc" by (simp add: example_env_def)
  have ex: "(case sessionData example_manager 7 of None \<Rightarrow> empty_state | Some s \<Rightarrow> s) = example_state"
    by (simp add: example_manager_def)
  note a = updateUserState_shallow_merge [OF refl refl, of example_env 7 example_update example_manager]
  note b = updateUserState_shallow_merge [OF refl refl, of example_env 7 example_replacement example_manager]
  from a obtain merged doc written where
    m: "sessionData (updateUserState example_env 7 example_update example_manager) 7 = Some merged"
      "diagnosis merged = Some (ascii ''flu'')" "sections merged = Some [ascii ''Y'']"
      "messageIds merged = Some []" "callbackMap merged = None" "currentSection merged = None"
    and o: "sessionData (updateUserState example_env 7 example_update example_manager) 8
              = sessionData example_manager 8"
    and d: "sessionFile (updateUserState example_env 7 example_update example_manager) = Document doc"
      "doc 7 = Some written" "diagnosis written = diagnosis merged"
      "sections written = sections merged" "messageIds written = messageIds merged"
      "currentSection written = currentSection merged" "callbackMap written = None"
    and r: "plain_state merged \<longrightarrow> sessionData (new_SessionManager
         (sessionFile (updateUserState example_env 7 example_update example_manager))) 7 = Some merged"
    by (auto simp: ok ex example_update_def names_nothing_def example_state_def)
  from m have me: "merged = ?merged" by (cases merged) simp
  from d m have we: "written = \<lparr>diagnosis = Some (ascii ''flu''), sections = Some [ascii ''Y''],
                  messageIds = Some [], callbackMap = None, currentSection = None\<rparr>"
    by (cases written) simp
  have p: "plain_state merged" by (simp add: me plain_state_def plain_callbackMap_def)
  from b obtain merged' doc' written' where
    m': "sessionData (updateUserState example_env 7 example_replacement example_manager) 7 = Some merged'"
      "callbackMap merged' = Some (PlainObject [(ascii ''section:W'', ascii ''W'')])"
      "messageIds merged' = Some [1, 2]"
    and d': "sessionFile (updateUserState example_env 7 example_replacement example_manager) = Document doc'"
      "doc' 7 = Some written'" "messageIds written' = messageIds merged'"
      "callbackMap written' =
         (case callbackMap merged' of
            None \<Rightarrow> None
          | Some (PlainObject ps) \<Rightarrow> Some (ObjectEncoding ps)
          | Some (MapObject es ps) \<Rightarrow> Some (ArrayEncoding es))"
    by (auto simp: ok ex example_replacement_def names_nothing_def example_state_def)
  have x: "map_option callbackMap (sessionData example_manager 7)
       = Some (Some (PlainObject [(ascii ''section:X'', ascii ''X'')]))"
    by (simp add: example_manager_def example_state_def)
  from m me o d we r p m' d' x show ?thesis by simp
qed

lemma restore_serializable_callbackMap:
  "plain_callbackMap m \<Longrightarrow> map_option restore_callbackMap (map_option serializable_callbackMap m) = m"
  by (cases m; simp add: plain_callbackMap_def split: callback_map.splits)

lemma restore_serializableState:
  "plain_state s \<Longrightarrow> restore_state (serializableState s) = s"
  by (simp add: restore_state_def serializableState_def plain_state_def restore_serializable_callbackMap)

lemma load_serializableData:
  assumes "plain_store sd"
  shows "loadSessions (Document (serializableData sd)) = sd"
proof
  fix userId
  show "loadSessions (Document (serializableData sd)) userId = sd userId"
  proof (cases "sd userId")
    case None
    then show ?thesis by (simp add: loadSessions_def serializableData_def)
  next
    case (Some s)
    with assms have "plain_state s" by (simp add: plain_store_def)
    with Some show ?thesis
      by (simp add: loadSessions_def serializableData_def restore_serializableState)
  qed
qed

lemma plain_spread:
  "plain_state s \<Longrightarrow> plain_mutation (UpdateUserState userId p) \<Longrightarrow> plain_state (spread s p)"
  by (simp add: plain_state_def spread_def split: option.splits)

lemma plain_empty_state: "plain_state empty_state"
  by (simp add: plain_state_def empty_state_def plain_callbackMap_def)

lemma plain_store_apply_mutation:
  assumes "plain_store (sessionData sm)" and "plain_mutation m"
  shows "plain_store (sessionData (apply_mutation e m sm))"
proof (cases m)
  case (SetUserState userId s)
  with assms show ?thesis by (simp add: setUserState_def plain_store_def)
next
  case (UpdateUserState userId p)
  let ?existing = "case sessionData sm userId of None \<Rightarrow> empty_state | Some s \<Rightarrow> s"
  from assms(1) have "plain_state ?existing"
    by (auto simp: plain_store_def plain_empty_state split: option.splits)
  with assms(2) UpdateUserState have "plain_state (spread ?existing p)"
    by (simp add: plain_spread)
  with assms(1) UpdateUserState show ?thesis
    by (simp add: updateUserState_def plain_store_def)
next
  case (DeleteUserState userId)
  with assms show ?thesis
    by (simp add: deleteUserState_def plain_store_def split: option.splits)
next
  case ClearAllSessions
  then show ?thesis by (simp add: clearAllSessions_def plain_store_def)
qed

lemma plain_store_fold:
  "plain_store (sessionData sm) \<Longrightarrow> list_all plain_mutation ms \<Longrightarrow>
   plain_store (sessionData (fold (apply_mutation e) ms sm))"
  by (induction ms arbitrary: sm) (simp_all add: plain_store_apply_mutation)

text \<open>
  Claim C7. After any sequence of mutations of a canonical store, writing the store to
  the session file and constructing a new session manager from the file (a restart)
  gives every user the callback map the store held in memory. The write is taken to
  succeed: a failed write leaves the file as it was.
\<close>

theorem reload_keeps_callbackMap:
  assumes "plain_store (sessionData sm0)"
    and "list_all plain_mutation ms"
    and "sm = fold (apply_mutation e) ms sm0"
    and "writeFileSync_ok e (serializableData (sessionData sm))"
  shows "map_option callbackMap (sessionData (new_SessionManager (sessionFile (saveSessions e sm))) userId)
       = map_option callbackMap (sessionData sm userId)"
proof -
  from assms(1-3) have "plain_store (sessionData sm)" by (simp add: plain_store_fold)
  then have "loadSessions (Document (serializableData (sessionData sm))) = sessionData sm"
    by (rule load_serializableData)
  with assms(4) show ?thesis
    by (simp add: new_SessionManager_def saveSessions_def)
qed

theorem reload_keeps_callbackMap_witness:
  "plain_store (sessionData (new_SessionManager Missing))
   \<and> list_all plain_mutation
        [UpdateUserState 7 example_update, SetUserState 7 example_state, DeleteUserState 8]
   \<and> writeFileSync_ok example_env (serializableData (sessionData
        (fold (apply_mutation example_env)
           [UpdateUserState 7 example_update, SetUserState 7 example_state, DeleteUserState 8]
           (new_SessionManager Missing))))
   \<and> map_option callbackMap (sessionData (new_SessionManager (sessionFile (saveSessions example_env
        (fold (apply_mutation example_env)
           [UpdateUserState 7 example_update, SetUserState 7 example_state, DeleteUserState 8]
           (new_SessionManager Missing))))) 7)
     = Some (Some (PlainObject [(ascii ''section:X'', ascii ''X'')]))"
proof -
  let ?ms = "[UpdateUserState 7 example_update, SetUserState 7 example_state, DeleteUserState 8]"
  have p: "plain_store (sessionData (new_SessionManager Missing))"
    by (simp add: plain_store_def new_SessionManager_def loadSessions_def)
  have m: "list_all plain_mutation ?ms"
    by (simp add: example_update_def example_state_def names_nothing_def plain_state_def
        plain_callbackMap_def)
  have w: "writeFileSync_ok example_env (serializableData (sessionData
        (fold (apply_mutation example_env) ?ms (new_SessionManager Missing))))"
    by (simp add: example_env_def)
  have "map_option callbackMap (sessionData
        (fold (apply_mutation example_env) ?ms (new_SessionManager Missing)) 7)
     = Some (Some (PlainObject [(ascii ''section:X'', ascii ''X'')]))"
    by (simp add: updateUserState_def setUserState_def deleteUserState_def example_state_def
        new_SessionManager_def loadSessions_def Let_def)
  with reload_keeps_callbackMap [OF p m refl w, of 7] p m w show ?thesis by simp
qed

text \<open>
  Why the statement is about the canonical encoding. From a file in the array encoding
  the callback map is loaded as a \<open>Map\<close>: its entries are not properties, so the
  mapping the file held does not resolve; a mapping stored afterwards becomes a
  property of the \<open>Map\<close> object, resolves until the restart, and is not written to
  the file.
\<close>

lemma array_encoding_loses_mappings:
  "resolveCallbackMapping (Some 7) (ascii ''diagnosis:A'') (after_start array_encoded_file (Some 7)) = None
   \<and> resolveCallbackMapping (Some 7) (ascii ''diagnosis:B'')
         (snd (storeCallbackMapping example_env (Some 7) (ascii ''B'') DiagnosisKind
                 (after_start array_encoded_file (Some 7))))
       = Some (ascii ''B'')
   \<and> resolveCallbackMapping (Some 7) (ascii ''diagnosis:B'')
         (after_start
            (sessionFile (manager (snd (storeCallbackMapping example_env (Some 7) (ascii ''B'')
               DiagnosisKind (after_start array_encoded_file (Some 7))))))
            (Some 7))
       = None"
  by (simp add: after_start_def array_encoded_file_def middleware_def new_SessionManager_def
      loadSessions_def getUserState_def restore_state_def new_Map_def
      resolveCallbackMapping_def storeCallbackMapping_def userId_of_def Let_def
      generateHash_def example_env_def updateUserState_def saveSessions_def spread_def
      names_nothing_def serializableData_def serializableState_def ascii_def)

section \<open>Clearing the displayed messages\<close>

lemma trace_clearPreviousMessages:
  "trace (clearPreviousMessages e sender w) =
     trace w @ (case userId_of sender of None \<Rightarrow> []
                | Some userId \<Rightarrow> deleteMessages e (messageIds_of (userState w)))"
  by (simp add: clearPreviousMessages_def messageIds_of_def split: option.splits)

text \<open>
  Claim C6. For an event with a sender, after \<open>clearPreviousMessages\<close> the attached
  state has no message ids, whatever the transport answers to each delete; the same
  holds for the stored state of the sender when the state was attached by the
  middleware. Every id the state had was handed to \<open>deleteMessage\<close>, in order.
\<close>

theorem clearPreviousMessages_empties_messageIds:
  assumes "userId_of sender = Some userId"
  shows "messageIds_of (userState (clearPreviousMessages e sender w)) = []
       \<and> messageIds_of (getUserState (manager (clearPreviousMessages e sender (middleware sender w))) userId) = []
       \<and> trace (clearPreviousMessages e sender w) = trace w @ deleteMessages e (messageIds_of (userState w))"
proof -
  from assms obtain n where n: "sender = Some n" "n = userId"
    by (auto simp: userId_of_def split: option.splits if_splits)
  have 1: "messageIds_of (userState (clearPreviousMessages e sender w)) = []"
    using assms by (simp add: clearPreviousMessages_def messageIds_of_def split: option.splits)
  have 2: "messageIds_of (getUserState (manager (clearPreviousMessages e sender (middleware sender w))) userId) = []"
    using assms n
    by (auto simp: clearPreviousMessages_def middleware_def messageIds_of_def getUserState_def
        sessionData_updateUserState spread_def names_nothing_def fresh_state_def
        split: option.splits)
  have 3: "trace (clearPreviousMessages e sender w) = trace w @ deleteMessages e (messageIds_of (userState w))"
    using assms by (simp add: trace_clearPreviousMessages)
  from 1 2 3 show ?thesis by simp
qed

theorem clearPreviousMessages_empties_messageIds_witness:
  "userId_of (Some 7) = Some 7
   \<and> messageIds_of (userState example_world) = [1, 2]
   \<and> \<not> deleteMessage_ok example_env 2
   \<and> messageIds_of (userState (clearPreviousMessages example_env (Some 7) example_world)) = []
   \<and> messageIds_of (getUserState (manager (clearPreviousMessages example_env (Some 7)
        (middleware (Some 7) example_world))) 7) = []
   \<and> trace (clearPreviousMessages example_env (Some 7) example_world)
       = [DeleteMessage 1, DeleteMessage 2, LogDeleteFailure 2]"
proof -
  have u: "userId_of (Some 7) = Some 7" by (simp add: userId_of_def)
  show ?thesis
    using clearPreviousMessages_empties_messageIds [OF u, of example_env example_world] u
    by (simp add: messageIds_of_def example_world_def example_state_def example_env_def)
qed

section \<open>The callback map\<close>

lemma userState_storeCallbackMapping:
  assumes "userId_of sender = Some userId" and "userState w = Some s"
  shows "storeCallbackMapping e sender v k w =
     (generateHash e v,
      w\<lparr>userState := Some (s\<lparr>callbackMap := Some
            (set_property (case callbackMap s of None \<Rightarrow> PlainObject [] | Some m \<Rightarrow> m)
               (kind_name k @ ascii '':'' @ generateHash e v) v)\<rparr>),
        manager := updateUserState e userId
          (names_nothing\<lparr>named_callbackMap := Some (Some
            (set_property (case callbackMap s of None \<Rightarrow> PlainObject [] | Some m \<Rightarrow> m)
               (kind_name k @ ascii '':'' @ generateHash e v) v))\<rparr>) (manager w)\<rparr>)"
  using assms by (simp add: storeCallbackMapping_def Let_def)

lemma get_set_property:
  "get_property (set_property m k v) k' = (if k' = k then Some v else get_property m k')"
  by (cases m) (simp_all add: update_conv')

lemma callback_lookup_storeCallbackMapping:
  assumes "userId_of sender = Some userId" and "userState w = Some s"
  shows "callback_lookup (snd (storeCallbackMapping e sender v k w)) key =
     (if key = kind_name k @ ascii '':'' @ generateHash e v then Some v else callback_lookup w key)"
  using assms
  by (simp add: userState_storeCallbackMapping [OF assms] callback_lookup_def get_set_property
      split: option.splits)

lemma userState_after_store:
  assumes "userId_of sender = Some userId" and "userState w = Some s"
  shows "\<exists>s'. userState (snd (storeCallbackMapping e sender v k w)) = Some s'"
  by (simp add: userState_storeCallbackMapping [OF assms])


lemma trace_storeCallbackMapping: "trace (snd (storeCallbackMapping e sender v k w)) = trace w"
  by (simp add: storeCallbackMapping_def Let_def split: option.splits)

lemma trace_store_each: "trace (snd (store_each build e sender k items w)) = trace w"
  by (induction items arbitrary: w) (simp_all add: case_prod_beta trace_storeCallbackMapping)

lemma resolveCallbackMapping_lookup:
  "resolveCallbackMapping sender key w =
     (case userId_of sender of
        None \<Rightarrow> None
      | Some userId \<Rightarrow>
          (case callback_lookup w key of
             None \<Rightarrow> None
           | Some v \<Rightarrow> if v = [] then None else Some v))"
  by (simp add: resolveCallbackMapping_def callback_lookup_def split: option.splits)

text \<open>
  The tokens are at most 32 code units long and the names are not bounded, so for
  every digest two different names have the same token. When the mappings of two
  names are stored one after the other, as two searches do, the key of the first
  resolves to the second name if their tokens are the same.
\<close>

lemma infinite_nonempty_strings: "infinite {s :: jsstring. s \<noteq> []}"
proof -
  have "{s :: jsstring. s \<noteq> []} = UNIV - {[]}" by auto
  moreover have "infinite (UNIV :: jsstring set)" by (rule infinite_UNIV_listI)
  ultimately show ?thesis by simp
qed

lemma generateHash_collides:
  "\<exists>a b. a \<noteq> [] \<and> b \<noteq> [] \<and> a \<noteq> b \<and> generateHash e a = generateHash e b"
proof -
  let ?D = "{s :: jsstring. s \<noteq> []}"
  have "generateHash e ` ?D \<subseteq> {xs. set xs \<subseteq> UNIV \<and> length xs \<le> 32}"
    by (auto simp: generateHash_def)
  moreover have "finite {xs :: jsstring. set xs \<subseteq> UNIV \<and> length xs \<le> 32}"
    by (rule finite_lists_length_le) simp
  ultimately have "finite (generateHash e ` ?D)" by (rule finite_subset)
  with infinite_nonempty_strings have "\<not> inj_on (generateHash e) ?D"
    using finite_imageD by blast
  then show ?thesis by (auto simp: inj_on_def)
qed

lemma resolve_after_two_stores:
  assumes "userId_of sender = Some userId" and "userState w = Some s" and "a \<noteq> []"
  shows "resolveCallbackMapping sender (kind_name k @ ascii '':'' @ generateHash e a)
           (snd (storeCallbackMapping e sender b k (snd (storeCallbackMapping e sender a k w))))
       = (if generateHash e a = generateHash e b then (if b = [] then None else Some b) else Some a)"
proof -
  let ?w1 = "snd (storeCallbackMapping e sender a k w)"
  let ?w2 = "snd (storeCallbackMapping e sender b k ?w1)"
  let ?key = "\<lambda>x. kind_name k @ ascii '':'' @ generateHash e x"
  from userState_after_store [OF assms(1,2)] obtain s1 where s1: "userState ?w1 = Some s1" by blast
  have "callback_lookup ?w2 (?key a) = (if ?key a = ?key b then Some b else Some a)"
    by (simp add: callback_lookup_storeCallbackMapping [OF assms(1) s1]
        callback_lookup_storeCallbackMapping [OF assms(1,2)])
  then show ?thesis
    using assms by (simp add: resolveCallbackMapping_lookup)
qed

section \<open>Replies\<close>

lemma trace_saveMessageId [simp]: "trace (saveMessageId e sender m w) = trace w"
  by (simp add: saveMessageId_def Let_def split: option.splits)

lemma trace_reply_and_save:
  "trace (snd (reply_and_save e sender text markup w)) = trace w @ [ReplyWithMarkdown text markup]"
  by (simp add: reply_and_save_def Let_def split: option.splits)

lemma outcome_reply_and_save:
  "fst (reply_and_save e sender text markup w)
     = (case sent_message_id e text markup of None \<Rightarrow> Rejected | Some m \<Rightarrow> Resolved)"
  by (simp add: reply_and_save_def Let_def split: option.splits)

section \<open>The diagnosis search\<close>

lemma lastIndexOf_self: "lastIndexOf s s = 0"
  by (simp add: lastIndexOf_def)

lemma indexOf_lower: "- 1 \<le> indexOf xs x"
  by (induction xs) (simp_all add: Let_def)

lemma indexOf_zero: "indexOf (y # ys) x = 0 \<longleftrightarrow> y = x"
proof (cases "y = x")
  case True
  then show ?thesis by simp
next
  case False
  then have e: "indexOf (y # ys) x = (if indexOf ys x < 0 then - 1 else indexOf ys x + 1)"
    by (simp add: Let_def)
  have "- 1 \<le> indexOf ys x" by (rule indexOf_lower)
  then have "(if indexOf ys x < 0 then - 1 else indexOf ys x + 1) \<noteq> 0" by arith
  then have "indexOf (y # ys) x \<noteq> 0" unfolding e .
  with False show ?thesis by blast
qed

lemma correctDiagnoses_first: "correctDiagnoses (d # ds) = d # filter (\<lambda>x. x = d) ds"
proof -
  have "(lastIndexOf x x = indexOf (d # ds) x) = (x = d)" for x
  proof -
    have "(lastIndexOf x x = indexOf (d # ds) x) = (indexOf (d # ds) x = 0)"
      unfolding lastIndexOf_self by (rule eq_commute)
    also have "\<dots> = (d = x)" by (rule indexOf_zero)
    also have "\<dots> = (x = d)" by (rule eq_commute)
    finally show ?thesis .
  qed
  then show ?thesis by (simp add: correctDiagnoses_def)
qed

text \<open>
  Claim C1 does not hold of the code. The filter of \<open>showDiagnosisOptions\<close> keeps the
  candidates equal to the first one (\<open>correctDiagnoses_first\<close>): for the two
  candidates A and B the keyboard sent holds the button of A and the new-diagnosis
  button, and no button for B.
\<close>

theorem only_first_candidate_gets_a_button:
  "correctDiagnoses [ascii ''A'', ascii ''B''] = [ascii ''A'']
   \<and> trace (snd (showDiagnosisOptions e sender [ascii ''A'', ascii ''B''] w))
       = trace w @ [ReplyWithMarkdown txt_found
           (Some [[Callback (ascii ''A'')
                     (ascii ''select_diagnosis:''
                        @ fst (storeCallbackMapping e sender (ascii ''A'') DiagnosisKind w))],
                  [new_diagnosis_button]])]"
proof -
  have c: "correctDiagnoses [ascii ''A'', ascii ''B''] = [ascii ''A'']"
    by (simp add: correctDiagnoses_first ascii_def)
  show ?thesis
    by (simp add: c showDiagnosisOptions_def trace_reply_and_save trace_storeCallbackMapping
        diagnosis_row_def case_prod_beta)
qed

lemma userState_middleware_start:
  "userState (middleware (Some 7) start_world) = Some fresh_state"
  by (simp add: middleware_def start_world_def getUserState_def new_SessionManager_def loadSessions_def)

text \<open>
  The same through \<open>handleDiagnosisInput\<close>, for a new user and the example
  environment, whose search answers A, B.
\<close>

lemma search_with_two_candidates:
  "similar_diagnoses example_env (ascii ''q'') = Some [ascii ''A'', ascii ''B'']
   \<and> trace (snd (handleDiagnosisInput example_env (Some 7) (ascii ''q'')
         (middleware (Some 7) start_world)))
       = [ReplyWithMarkdown txt_searching None,
          GetSimilarDiagnoses (ascii ''q''),
          ReplyWithMarkdown txt_found
            (Some [[Callback (ascii ''A'') (ascii ''select_diagnosis:A'')], [new_diagnosis_button]])]"
proof -
  have c: "correctDiagnoses [ascii ''A'', ascii ''B''] = [ascii ''A'']"
    by (simp add: correctDiagnoses_first ascii_def)
  have u: "userId_of (Some 7) = Some 7" by (simp add: userId_of_def)
  have m: "\<And>text markup. sent_message_id example_env text markup = Some 100"
    by (simp add: example_env_def)
  have s: "similar_diagnoses example_env (ascii ''q'') = Some [ascii ''A'', ascii ''B'']"
    by (simp add: example_env_def)
  have g: "generateHash example_env (ascii ''A'') = ascii ''A''"
    by (simp add: generateHash_def example_env_def ascii_def)
  have k: "ascii ''select_diagnosis:'' @ ascii ''A'' = ascii ''select_diagnosis:A''"
    by (simp add: ascii_def)
  have "trace (snd (handleDiagnosisInput example_env (Some 7) (ascii ''q'')
         (middleware (Some 7) start_world)))
       = [ReplyWithMarkdown txt_searching None,
          GetSimilarDiagnoses (ascii ''q''),
          ReplyWithMarkdown txt_found
            (Some [[Callback (ascii ''A'') (ascii ''select_diagnosis:A'')], [new_diagnosis_button]])]"
    by (simp add: handleDiagnosisInput_def handleDiagnosisInput_try_def u m s c
        reply_and_save_def showDiagnosisOptions_def Let_def storeCallbackMapping_def
        saveMessageId_def userState_middleware_start diagnosis_row_def g k
        middleware_def start_world_def getUserState_def new_SessionManager_def loadSessions_def)
  with s show ?thesis by simp
qed

lemma store_each_without_user:
  assumes "userId_of sender = None \<or> userState w = None"
  shows "store_each build e sender k items w = (map (\<lambda>item. build item []) items, w)"
proof (induction items)
  case Nil
  show ?case by simp
next
  case (Cons item rest)
  from assms have "storeCallbackMapping e sender item k w = ([], w)"
    by (auto simp: storeCallbackMapping_def split: option.splits)
  with Cons show ?case by simp
qed

text \<open>
  Claim C10. Without a sender id, or without an attached state, \<open>storeCallbackMapping\<close>
  changes nothing and returns the empty string, so the button built from the result
  has the callback data \<open>select_diagnosis:\<close> with nothing after the colon; this is
  the data of every candidate button \<open>showDiagnosisOptions\<close> then sends.
\<close>

theorem storeCallbackMapping_without_user:
  assumes "userId_of sender = None \<or> userState w = None"
  shows "storeCallbackMapping e sender v k w = ([], w)
       \<and> diagnosis_row v (fst (storeCallbackMapping e sender v DiagnosisKind w))
           = [Callback v (ascii ''select_diagnosis:'')]
       \<and> trace (snd (showDiagnosisOptions e sender diagnoses w))
           = trace w @ [ReplyWithMarkdown txt_found
               (Some (map (\<lambda>d. [Callback d (ascii ''select_diagnosis:'')]) (correctDiagnoses diagnoses)
                      @ [[new_diagnosis_button]]))]"
proof -
  from assms have 1: "\<And>k. storeCallbackMapping e sender v k w = ([], w)"
    by (auto simp: storeCallbackMapping_def split: option.splits)
  have 2: "diagnosis_row v (fst (storeCallbackMapping e sender v DiagnosisKind w))
           = [Callback v (ascii ''select_diagnosis:'')]"
    by (simp add: 1 diagnosis_row_def)
  have 3: "trace (snd (showDiagnosisOptions e sender diagnoses w))
           = trace w @ [ReplyWithMarkdown txt_found
               (Some (map (\<lambda>d. [Callback d (ascii ''select_diagnosis:'')]) (correctDiagnoses diagnoses)
                      @ [[new_diagnosis_button]]))]"
    by (simp add: showDiagnosisOptions_def store_each_without_user [OF assms]
        trace_reply_and_save diagnosis_row_def)
  from 1 2 3 show ?thesis by simp
qed

theorem storeCallbackMapping_without_user_witness:
  "userState start_world = None
   \<and> storeCallbackMapping example_env (Some 7) (ascii ''A'') DiagnosisKind start_world = ([], start_world)
   \<and> trace (snd (showDiagnosisOptions example_env (Some 7) [ascii ''A''] start_world))
       = [ReplyWithMarkdown txt_found
            (Some [[Callback (ascii ''A'') (ascii ''select_diagnosis:'')], [new_diagnosis_button]])]"
proof -
  have n: "userState start_world = None" by (simp add: start_world_def)
  then have h: "userId_of (Some 7) = None \<or> userState start_world = None" by simp
  have t: "trace start_world = []" by (simp add: start_world_def)
  from storeCallbackMapping_without_user [OF h, of example_env "ascii ''A''" DiagnosisKind "[ascii ''A'']"]
    n t
  show ?thesis by (simp add: correctDiagnoses_first)
qed

section \<open>The section list\<close>

lemma insert_by_first:
  "priority x = 0 \<Longrightarrow> insert_by (\<lambda>a b. priority a - priority b) x zs = x # zs"
  by (cases zs) (simp_all add: priority_def)

lemma insert_by_second:
  assumes "\<forall>h \<in> set hs. priority h = 0" and "\<forall>l \<in> set ls. priority l = 1" and "priority x = 1"
  shows "insert_by (\<lambda>a b. priority a - priority b) x (hs @ ls) = hs @ x # ls"
  using assms(1)
proof (induction hs)
  case Nil
  with assms(2,3) show ?case by (cases ls) simp_all
next
  case (Cons h hs)
  with assms(3) show ?case by simp
qed

lemma sort_by_priority:
  "sort_by (\<lambda>a b. priority a - priority b) xs
     = filter (\<lambda>s. priority s = 0) xs @ filter (\<lambda>s. priority s \<noteq> 0) xs"
proof (induction xs)
  case Nil
  show ?case by (simp add: sort_by_def)
next
  case (Cons x xs)
  have step: "sort_by (\<lambda>a b. priority a - priority b) (x # xs)
      = insert_by (\<lambda>a b. priority a - priority b) x
          (filter (\<lambda>s. priority s = 0) xs @ filter (\<lambda>s. priority s \<noteq> 0) xs)"
    using Cons by (simp add: sort_by_def)
  show ?case
  proof (cases "priority x = 0")
    case True
    then show ?thesis by (simp add: step insert_by_first)
  next
    case False
    then have one: "priority x = 1" by (simp add: priority_def split: if_splits)
    have "\<forall>l \<in> set (filter (\<lambda>s. priority s \<noteq> 0) xs). priority l = 1"
      by (auto simp: priority_def split: if_splits)
    then have "insert_by (\<lambda>a b. priority a - priority b) x
          (filter (\<lambda>s. priority s = 0) xs @ filter (\<lambda>s. priority s \<noteq> 0) xs)
        = filter (\<lambda>s. priority s = 0) xs @ x # filter (\<lambda>s. priority s \<noteq> 0) xs"
      using one by (intro insert_by_second) simp_all
    with False show ?thesis by (simp add: step)
  qed
qed

lemma priority_prioritized: "(priority s = 0) = prioritized s"
  by (simp add: priority_def prioritized_def)

lemma correctSections_order:
  "correctSections secs =
     filter prioritized (filter (\<lambda>s. s \<noteq> MKB) secs)
     @ filter (\<lambda>s. \<not> prioritized s) (filter (\<lambda>s. s \<noteq> MKB) secs)"
  by (simp add: correctSections_def sort_by_priority priority_prioritized)

lemma button_text_store_each:
  "map button_text (fst (store_each section_button e sender k items w)) = items"
  by (induction items arbitrary: w) (simp_all add: section_button_def case_prod_beta)

lemma concat_pair_rows: "concat (pair_rows bs) = bs"
  by (induction bs rule: pair_rows.induct) simp_all

lemma length_pair_rows: "length (pair_rows bs) = (length bs + 1) div 2"
  by (induction bs rule: pair_rows.induct) simp_all

lemma nth_pair_rows:
  "i < length (pair_rows bs) \<Longrightarrow> pair_rows bs ! i = take 2 (drop (2 * i) bs)"
proof (induction bs arbitrary: i rule: pair_rows.induct)
  case 1
  then show ?case by simp
next
  case (2 a)
  then show ?case by simp
next
  case (3 a b rest)
  then show ?case by (cases i) simp_all
qed

text \<open>
  Claim C5. \<open>displaySectionsList\<close> replies with one keyboard: its section buttons, in
  rows, then the row of the new-diagnosis button. The titles on the section buttons
  are the given titles without the excluded one, the two prioritized titles first,
  each group in its original order. The rows hold the buttons two by two in that
  order: row \<open>i\<close> is the slice of the buttons from \<open>2 * i\<close> to \<open>2 * i + 2\<close>.
\<close>

theorem displaySectionsList_layout:
  "trace (snd (displaySectionsList e sender d secs w))
     = trace w @ [ReplyWithMarkdown (ascii ''*'' @ d @ ascii ''*'' @ txt_available_sections)
                    (Some (pair_rows (sectionButtons e sender secs w) @ [[new_diagnosis_button]]))]
   \<and> map button_text (sectionButtons e sender secs w)
       = filter prioritized (filter (\<lambda>s. s \<noteq> MKB) secs)
         @ filter (\<lambda>s. \<not> prioritized s) (filter (\<lambda>s. s \<noteq> MKB) secs)
   \<and> concat (pair_rows (sectionButtons e sender secs w)) = sectionButtons e sender secs w
   \<and> length (pair_rows (sectionButtons e sender secs w))
       = (length (sectionButtons e sender secs w) + 1) div 2
   \<and> (\<forall>i < length (pair_rows (sectionButtons e sender secs w)).
         pair_rows (sectionButtons e sender secs w) ! i
           = take 2 (drop (2 * i) (sectionButtons e sender secs w)))"
proof -
  have "trace (snd (displaySectionsList e sender d secs w))
     = trace w @ [ReplyWithMarkdown (ascii ''*'' @ d @ ascii ''*'' @ txt_available_sections)
                    (Some (pair_rows (sectionButtons e sender secs w) @ [[new_diagnosis_button]]))]"
    by (simp add: displaySectionsList_def sectionButtons_def trace_reply_and_save
        trace_store_each case_prod_beta)
  moreover have "map button_text (sectionButtons e sender secs w)
       = filter prioritized (filter (\<lambda>s. s \<noteq> MKB) secs)
         @ filter (\<lambda>s. \<not> prioritized s) (filter (\<lambda>s. s \<noteq> MKB) secs)"
    by (simp only: sectionButtons_def button_text_store_each correctSections_order)
  moreover have "\<forall>i < length (pair_rows (sectionButtons e sender secs w)).
         pair_rows (sectionButtons e sender secs w) ! i
           = take 2 (drop (2 * i) (sectionButtons e sender secs w))"
    by (intro allI impI nth_pair_rows)
  ultimately show ?thesis
    using concat_pair_rows [of "sectionButtons e sender secs w"]
      length_pair_rows [of "sectionButtons e sender secs w"]
    by blast
qed

theorem displaySectionsList_layout_witness:
  "map button_text (sectionButtons example_env (Some 7) [MKB, Lechenie, Diagnostika, Prochee] example_world)
     = [Lechenie, Diagnostika, Prochee]
   \<and> map button_text (sectionButtons example_env (Some 7) [Prochee, MKB, Diagnostika, Lechenie] example_world)
     = [Diagnostika, Lechenie, Prochee]
   \<and> (1::nat) < length (pair_rows (sectionButtons example_env (Some 7)
         [MKB, Lechenie, Diagnostika, Prochee] example_world))
   \<and> map (map button_text) (pair_rows (sectionButtons example_env (Some 7)
         [MKB, Lechenie, Diagnostika, Prochee] example_world))
     = [[Lechenie, Diagnostika], [Prochee]]"
proof -
  have d: "MKB \<noteq> Lechenie" "MKB \<noteq> Diagnostika" "MKB \<noteq> Prochee" "Prochee \<noteq> Lechenie"
    "Prochee \<noteq> Diagnostika" "Lechenie \<noteq> Diagnostika"
    by (simp_all add: MKB_def Lechenie_def Diagnostika_def Prochee_def)
  note a = displaySectionsList_layout [of example_env "Some 7" "[]"
      "[MKB, Lechenie, Diagnostika, Prochee]" example_world]
  note b = displaySectionsList_layout [of example_env "Some 7" "[]"
      "[Prochee, MKB, Diagnostika, Lechenie]" example_world]
  from a have 1: "map button_text (sectionButtons example_env (Some 7)
      [MKB, Lechenie, Diagnostika, Prochee] example_world) = [Lechenie, Diagnostika, Prochee]"
    using d by (simp add: prioritized_def eq_commute [of Prochee])
  from b have 2: "map button_text (sectionButtons example_env (Some 7)
      [Prochee, MKB, Diagnostika, Lechenie] example_world) = [Diagnostika, Lechenie, Prochee]"
    using d by (simp add: prioritized_def eq_commute [of Prochee] eq_commute [of Diagnostika Lechenie])
  from 1 obtain b1 b2 b3 where bs: "sectionButtons example_env (Some 7)
      [MKB, Lechenie, Diagnostika, Prochee] example_world = [b1, b2, b3]"
    "button_text b1 = Lechenie" "button_text b2 = Diagnostika" "button_text b3 = Prochee"
    by (auto simp: map_eq_Cons_conv)
  from 1 2 bs show ?thesis by simp
qed

section \<open>Selecting a section\<close>

lemma callback_lookup_clearPreviousMessages:
  "callback_lookup (clearPreviousMessages e sender w) key = callback_lookup w key"
  by (simp add: clearPreviousMessages_def callback_lookup_def split: option.splits)

lemma resolveCallbackMapping_clearPreviousMessages:
  "resolveCallbackMapping sender key (clearPreviousMessages e sender w)
     = resolveCallbackMapping sender key w"
  by (cases "userId_of sender")
    (simp_all add: resolveCallbackMapping_lookup callback_lookup_clearPreviousMessages)

lemma is_api_call_deleteMessages: "filter is_api_call (deleteMessages e ids) = []"
  by (induction ids) simp_all

lemma api_calls_clearPreviousMessages:
  "filter is_api_call (trace (clearPreviousMessages e sender w)) = filter is_api_call (trace w)"
  by (simp add: trace_clearPreviousMessages is_api_call_deleteMessages split: option.splits)

lemma not_found_differs_from_load_error:
  "txt_section_not_found @ txt_try_again \<noteq> txt_load_error"
  by (simp add: txt_section_not_found_def txt_load_error_def)

lemma example_cleared:
  "trace (clearPreviousMessages example_env (Some 7) example_world)
     = [DeleteMessage 1, DeleteMessage 2, LogDeleteFailure 2]"
  by (simp add: trace_clearPreviousMessages userId_of_def messageIds_of_def example_world_def
      example_state_def example_env_def)

lemma handleSectionSelection_missing_key:
  assumes "callback_lookup w (ascii ''section:'' @ hash) = None"
  shows "handleSectionSelection e sender hash w =
     reply_and_save e sender (txt_section_not_found @ txt_try_again)
       (Some [[new_diagnosis_button]]) (clearPreviousMessages e sender w)"
proof -
  from assms have "resolveCallbackMapping sender (ascii ''section:'' @ hash) w = None"
    by (cases "userId_of sender") (simp_all add: resolveCallbackMapping_lookup)
  then have "resolveCallbackMapping sender (ascii ''section:'' @ hash)
               (clearPreviousMessages e sender w) = None"
    by (simp add: resolveCallbackMapping_clearPreviousMessages)
  then show ?thesis by (simp add: handleSectionSelection_def Let_def sendErrorMessage_def)
qed

text \<open>
  Claim C8, as the code has it. When the attached callback map has nothing under
  \<open>section:<hash>\<close>, the handler makes one reply, the fixed text "section not found,
  please try again", which is not the text sent for a failed API request, and it adds
  no call to the content API. The reply is awaited outside any \<open>try\<close>: the
  handler's promise rejects exactly when the transport rejects that reply.
\<close>

theorem missing_section_key_not_found:
  assumes "callback_lookup w (ascii ''section:'' @ hash) = None"
    and "r = handleSectionSelection e sender hash w"
    and "reply = ReplyWithMarkdown (txt_section_not_found @ txt_try_again) (Some [[new_diagnosis_button]])"
  shows "trace (snd r) = trace (clearPreviousMessages e sender w) @ [reply]
       \<and> filter is_api_call (trace (snd r)) = filter is_api_call (trace w)
       \<and> (fst r = Rejected) = (sent_message_id e (txt_section_not_found @ txt_try_again)
                                  (Some [[new_diagnosis_button]]) = None)
       \<and> txt_section_not_found @ txt_try_again \<noteq> txt_load_error"
proof -
  let ?w1 = "clearPreviousMessages e sender w"
  from assms(1) have "resolveCallbackMapping sender (ascii ''section:'' @ hash) w = None"
    by (cases "userId_of sender") (simp_all add: resolveCallbackMapping_lookup)
  then have "resolveCallbackMapping sender (ascii ''section:'' @ hash) ?w1 = None"
    by (simp add: resolveCallbackMapping_clearPreviousMessages)
  then have r: "r = reply_and_save e sender (txt_section_not_found @ txt_try_again)
                      (Some [[new_diagnosis_button]]) ?w1"
    using assms(2) by (simp add: handleSectionSelection_def Let_def sendErrorMessage_def)
  have t: "trace (snd r) = trace ?w1 @ [reply]"
    by (simp add: r trace_reply_and_save assms(3))
  have a: "filter is_api_call (trace (snd r)) = filter is_api_call (trace w)"
    by (simp add: t api_calls_clearPreviousMessages assms(3))
  have o: "(fst r = Rejected) = (sent_message_id e (txt_section_not_found @ txt_try_again)
                                  (Some [[new_diagnosis_button]]) = None)"
    by (simp add: r outcome_reply_and_save split: option.splits)
  from t a o not_found_differs_from_load_error show ?thesis by simp
qed

theorem missing_section_key_not_found_witness:
  "callback_lookup example_world (ascii ''section:Z'') = None
   \<and> trace (snd (handleSectionSelection example_env (Some 7) (ascii ''Z'') example_world))
       = [DeleteMessage 1, DeleteMessage 2, LogDeleteFailure 2,
          ReplyWithMarkdown (txt_section_not_found @ txt_try_again) (Some [[new_diagnosis_button]])]
   \<and> fst (handleSectionSelection example_env (Some 7) (ascii ''Z'') example_world) = Resolved"
proof -
  have k: "ascii ''section:'' @ ascii ''Z'' = ascii ''section:Z''" by (simp add: ascii_def)
  have a: "callback_lookup example_world (ascii ''section:'' @ ascii ''Z'') = None"
    by (simp add: callback_lookup_def example_world_def example_state_def ascii_def)
  have c: "trace (clearPreviousMessages example_env (Some 7) example_world)
       = [DeleteMessage 1, DeleteMessage 2, LogDeleteFailure 2]"
    by (simp add: trace_clearPreviousMessages userId_of_def messageIds_of_def example_world_def
        example_state_def example_env_def)
  have s: "sent_message_id example_env (txt_section_not_found @ txt_try_again)
             (Some [[new_diagnosis_button]]) = Some 100"
    by (simp add: example_env_def)
  from missing_section_key_not_found [OF a refl refl, of example_env "Some 7"] a c s k
  show ?thesis by (cases "fst (handleSectionSelection example_env (Some 7) (ascii ''Z'') example_world)") simp_all
qed

text \<open>
  The claim that the branch does not throw fails when the transport rejects the reply:
  the key is absent, the reply is attempted, and the handler's promise rejects.
\<close>

theorem missing_section_key_throws_with_transport:
  "callback_lookup example_world (ascii ''section:'' @ ascii ''Z'') = None
   \<and> sent_message_id rejecting_env (txt_section_not_found @ txt_try_again)
         (Some [[new_diagnosis_button]]) = None
   \<and> fst (handleSectionSelection rejecting_env (Some 7) (ascii ''Z'') example_world) = Rejected
   \<and> trace (snd (handleSectionSelection rejecting_env (Some 7) (ascii ''Z'') example_world))
       = [DeleteMessage 1, DeleteMessage 2, LogDeleteFailure 2,
          ReplyWithMarkdown (txt_section_not_found @ txt_try_again) (Some [[new_diagnosis_button]])]"
proof -
  have a: "callback_lookup example_world (ascii ''section:'' @ ascii ''Z'') = None"
    by (simp add: callback_lookup_def example_world_def example_state_def ascii_def)
  have s: "sent_message_id rejecting_env (txt_section_not_found @ txt_try_again)
             (Some [[new_diagnosis_button]]) = None"
    by (simp add: rejecting_env_def)
  have c: "trace (clearPreviousMessages rejecting_env (Some 7) example_world)
       = [DeleteMessage 1, DeleteMessage 2, LogDeleteFailure 2]"
    by (simp add: trace_clearPreviousMessages userId_of_def messageIds_of_def example_world_def
        example_state_def example_env_def rejecting_env_def)
  from a s c show ?thesis
    by (simp add: handleSectionSelection_missing_key [OF a] outcome_reply_and_save
        trace_reply_and_save)
qed

lemma stored_diagnosis_clearPreviousMessages:
  "stored_diagnosis (manager (clearPreviousMessages e sender w)) u = stored_diagnosis (manager w) u"
  by (simp add: clearPreviousMessages_def stored_diagnosis_def getUserState_def
      sessionData_updateUserState spread_def names_nothing_def empty_state_def
      split: option.splits)

lemma trace_processSectionSelection:
  assumes "userId_of sender = Some userId"
  shows "trace (snd (processSectionSelection e sender t w)) =
     trace w @
     (case stored_diagnosis (manager w) userId of
        None \<Rightarrow> [info_not_found_reply]
      | Some d \<Rightarrow>
          ReplyWithMarkdown (loading_text t) None #
          (case sent_message_id e (loading_text t) None of
             None \<Rightarrow> []
           | Some m \<Rightarrow> fetch_and_display e d t))"
  using assms
  by (simp add: processSectionSelection_def sendErrorMessage_def sendLoadError_def
      reply_and_save_def Let_def info_not_found_reply_def load_error_reply_def loading_text_def
      content_text_def fetch_and_display_def
      split: option.splits)

lemma section_fetches_append [simp]:
  "section_fetches (xs @ ys) = section_fetches xs @ section_fetches ys"
  by (induction xs rule: section_fetches.induct) simp_all

lemma section_fetches_fetch_and_display: "section_fetches (fetch_and_display e d t) = [(d, t)]"
  by (simp add: fetch_and_display_def load_error_reply_def split: option.splits)

lemma example_resolves:
  "resolveCallbackMapping (Some 7) (ascii ''section:'' @ ascii ''X'') example_world = Some (ascii ''X'')"
  by (simp add: resolveCallbackMapping_def userId_of_def example_world_def example_state_def ascii_def)

lemma example_stored_diagnosis: "stored_diagnosis (manager example_world) 7 = Some (ascii ''flu'')"
  by (simp add: stored_diagnosis_def getUserState_def example_world_def example_manager_def
      example_state_def ascii_def)

lemma example_content_text: "content_text (ascii ''X'') (ascii ''### Rest'') = ascii ''*X*'' @ [10, 10] @ ascii ''Rest''"
  by (simp add: content_text_def ascii_def is_space_def)

text \<open>
  Claim C2, as the code has it. The handler fetches the content exactly when the hash
  resolves to a title under \<open>section:<hash>\<close> and the stored state of the sender has a
  diagnosis (and the transport took the loading notice); the sections of the state are
  not consulted. When the hash does not resolve, or the diagnosis is not set, the only
  reply is a fixed error text and nothing is fetched.
\<close>

theorem section_selection_preconditions:
  assumes "r = handleSectionSelection e sender hash w"
    and "cleared = trace (clearPreviousMessages e sender w)"
    and "title = resolveCallbackMapping sender (ascii ''section:'' @ hash) w"
    and "d = (case userId_of sender of None \<Rightarrow> None
              | Some userId \<Rightarrow> stored_diagnosis (manager w) userId)"
  shows "(title = None \<longrightarrow> trace (snd r) = cleared @ [not_found_reply])
       \<and> (title \<noteq> None \<and> d = None \<longrightarrow> trace (snd r) = cleared @ [info_not_found_reply])
       \<and> (\<forall>t dg. title = Some t \<and> d = Some dg \<longrightarrow>
             trace (snd r) = cleared @ ReplyWithMarkdown (loading_text t) None #
               (case sent_message_id e (loading_text t) None of
                  None \<Rightarrow> []
                | Some m \<Rightarrow> fetch_and_display e dg t))
       \<and> section_fetches (drop (length cleared) (trace (snd r))) =
            (case title of
               None \<Rightarrow> []
             | Some t \<Rightarrow>
                 (case d of
                    None \<Rightarrow> []
                  | Some dg \<Rightarrow>
                      (case sent_message_id e (loading_text t) None of
                         None \<Rightarrow> []
                       | Some m \<Rightarrow> [(dg, t)])))"
proof -
  let ?w1 = "clearPreviousMessages e sender w"
  have res: "resolveCallbackMapping sender (ascii ''section:'' @ hash) ?w1 = title"
    by (simp add: assms(3) resolveCallbackMapping_clearPreviousMessages)
  show ?thesis
  proof (cases title)
    case None
    with res have "r = sendErrorMessage e sender txt_section_not_found ?w1"
      by (simp add: assms(1) handleSectionSelection_def Let_def)
    then have "trace (snd r) = cleared @ [not_found_reply]"
      by (simp add: sendErrorMessage_def trace_reply_and_save assms(2) not_found_reply_def)
    with None show ?thesis by (simp add: not_found_reply_def)
  next
    case (Some t)
    with assms(3) obtain userId where u: "userId_of sender = Some userId"
      by (cases "userId_of sender") (simp_all add: resolveCallbackMapping_def)
    from Some res have "r = processSectionSelection e sender t ?w1"
      by (simp add: assms(1) handleSectionSelection_def Let_def)
    then have tr: "trace (snd r) = cleared @
       (case d of
          None \<Rightarrow> [info_not_found_reply]
        | Some dg \<Rightarrow>
            ReplyWithMarkdown (loading_text t) None #
            (case sent_message_id e (loading_text t) None of
               None \<Rightarrow> []
             | Some m \<Rightarrow> fetch_and_display e dg t))"
      by (simp add: trace_processSectionSelection [OF u] assms(2) assms(4) u
          stored_diagnosis_clearPreviousMessages)
    show ?thesis
    proof (cases d)
      case None
      with tr Some show ?thesis by (simp add: info_not_found_reply_def)
    next
      case (Some dg)
      with tr \<open>title = Some t\<close> show ?thesis
        by (simp add: section_fetches_fetch_and_display split: option.splits)
    qed
  qed
qed

theorem section_selection_preconditions_witness:
  "resolveCallbackMapping (Some 7) (ascii ''section:'' @ ascii ''X'') example_world = Some (ascii ''X'')
   \<and> stored_diagnosis (manager example_world) 7 = Some (ascii ''flu'')
   \<and> section_fetches (drop 3 (trace (snd (handleSectionSelection example_env (Some 7) (ascii ''X'') example_world))))
       = [(ascii ''flu'', ascii ''X'')]
   \<and> resolveCallbackMapping (Some 7) (ascii ''section:'' @ ascii ''X'') example_world_without_diagnosis
       = Some (ascii ''X'')
   \<and> stored_diagnosis (manager example_world_without_diagnosis) 7 = None
   \<and> trace (snd (handleSectionSelection example_env (Some 7) (ascii ''X'') example_world_without_diagnosis))
       = [DeleteMessage 1, DeleteMessage 2, LogDeleteFailure 2, info_not_found_reply]"
proof -
  have u: "userId_of (Some 7) = Some 7" by (simp add: userId_of_def)
  have m: "sent_message_id example_env (loading_text (ascii ''X'')) None = Some 100"
    by (simp add: example_env_def)
  have r2: "resolveCallbackMapping (Some 7) (ascii ''section:'' @ ascii ''X'')
              example_world_without_diagnosis = Some (ascii ''X'')"
    by (simp add: resolveCallbackMapping_def userId_of_def example_world_without_diagnosis_def
        example_state_def ascii_def)
  have d2: "stored_diagnosis (manager example_world_without_diagnosis) 7 = None"
    by (simp add: stored_diagnosis_def getUserState_def example_world_without_diagnosis_def)
  have c2: "trace (clearPreviousMessages example_env (Some 7) example_world_without_diagnosis)
     = [DeleteMessage 1, DeleteMessage 2, LogDeleteFailure 2]"
    by (simp add: trace_clearPreviousMessages userId_of_def messageIds_of_def
        example_world_without_diagnosis_def example_state_def example_env_def)
  note a = section_selection_preconditions [where e = example_env and sender = "Some 7"
      and hash = "ascii ''X''" and w = example_world, OF refl refl refl refl]
  note b = section_selection_preconditions [where e = example_env and sender = "Some 7"
      and hash = "ascii ''X''" and w = example_world_without_diagnosis, OF refl refl refl refl]
  from a have "section_fetches (drop 3 (trace (snd (handleSectionSelection example_env (Some 7)
                  (ascii ''X'') example_world)))) = [(ascii ''flu'', ascii ''X'')]"
    by (simp add: u example_resolves example_stored_diagnosis example_cleared m
        section_fetches_fetch_and_display)
  moreover from b have "trace (snd (handleSectionSelection example_env (Some 7) (ascii ''X'')
        example_world_without_diagnosis))
       = [DeleteMessage 1, DeleteMessage 2, LogDeleteFailure 2, info_not_found_reply]"
    by (simp add: u r2 d2 c2)
  ultimately show ?thesis
    by (simp only: example_resolves example_stored_diagnosis r2 d2 simp_thms)
qed

text \<open>
  The claim with the membership test fails: the title X resolves, the diagnosis is
  set, the sections of the state are Y alone, and the content of X is fetched and
  displayed.
\<close>

theorem section_outside_sections_is_fetched:
  "resolveCallbackMapping (Some 7) (ascii ''section:'' @ ascii ''X'') example_world = Some (ascii ''X'')
   \<and> stored_diagnosis (manager example_world) 7 = Some (ascii ''flu'')
   \<and> map_option sections (userState example_world) = Some (Some [ascii ''Y''])
   \<and> map_option sections (getUserState (manager example_world) 7) = Some (Some [ascii ''Y''])
   \<and> ascii ''X'' \<notin> set [ascii ''Y'']
   \<and> trace (snd (handleSectionSelection example_env (Some 7) (ascii ''X'') example_world))
       = [DeleteMessage 1, DeleteMessage 2, LogDeleteFailure 2,
          ReplyWithMarkdown (ascii ''*X*'' @ txt_loading_content) None,
          GetSection (ascii ''flu'') (ascii ''X''),
          ReplyWithMarkdown (ascii ''*X*'' @ [10, 10] @ ascii ''Rest'') (Some section_keyboard)]"
proof -
  have u: "userId_of (Some 7) = Some 7" by (simp add: userId_of_def)
  have r: "resolveCallbackMapping (Some 7) (ascii ''section:'' @ ascii ''X'')
             (clearPreviousMessages example_env (Some 7) example_world) = Some (ascii ''X'')"
    by (simp add: resolveCallbackMapping_clearPreviousMessages example_resolves)
  have d: "stored_diagnosis (manager (clearPreviousMessages example_env (Some 7) example_world)) 7
             = Some (ascii ''flu'')"
    by (simp add: stored_diagnosis_clearPreviousMessages example_stored_diagnosis)
  have s: "section_content example_env (ascii ''flu'') (ascii ''X'') = Some (ascii ''### Rest'')"
    by (simp add: example_env_def)
  have m: "\<And>text markup. sent_message_id example_env text markup = Some 100"
    by (simp add: example_env_def)
  have "trace (snd (handleSectionSelection example_env (Some 7) (ascii ''X'') example_world))
       = [DeleteMessage 1, DeleteMessage 2, LogDeleteFailure 2,
          ReplyWithMarkdown (loading_text (ascii ''X'')) None,
          GetSection (ascii ''flu'') (ascii ''X''),
          ReplyWithMarkdown (content_text (ascii ''X'') (ascii ''### Rest'')) (Some section_keyboard)]"
    by (simp add: handleSectionSelection_def Let_def r trace_processSectionSelection [OF u] d
        example_cleared fetch_and_display_def s m)
  moreover have "loading_text (ascii ''X'') = ascii ''*X*'' @ txt_loading_content"
    by (simp add: loading_text_def ascii_def)
  moreover have "ascii ''X'' \<notin> set [ascii ''Y'']" by (simp add: ascii_def)
  moreover have "map_option sections (userState example_world) = Some (Some [ascii ''Y''])"
    by (simp add: example_world_def example_state_def)
  moreover have "map_option sections (getUserState (manager example_world) 7) = Some (Some [ascii ''Y''])"
    by (simp add: example_world_def example_manager_def example_state_def getUserState_def)
  ultimately show ?thesis
    by (simp only: example_resolves example_stored_diagnosis example_content_text simp_thms)
qed

section \<open>Pressing the button of a searched candidate\<close>








lemma userState_reply_and_save:
  "userState w = Some s \<Longrightarrow> \<exists>s'. userState (snd (reply_and_save e sender text markup w)) = Some s'"
  by (auto simp: reply_and_save_def Let_def saveMessageId_def split: option.splits)





section \<open>Process start\<close>

text \<open>
  Claim C3 does not hold of the code for the API base URL. With the token set and
  \<open>API_BASE_URL\<close> absent the bot is constructed with \<open>http://localhost\<close> and
  launched; the check of \<open>API_BASE_URL\<close> never exits. An absent or empty token does
  exit with code 1.
\<close>

theorem api_url_absent_still_launches:
  "[''BOT_TOKEN'' \<mapsto> ascii ''t''] ''API_BASE_URL'' = None
   \<and> main [''BOT_TOKEN'' \<mapsto> ascii ''t'']
       = Launched \<lparr>token = ascii ''t'', apiBaseURL = ascii ''http://localhost'', dbHost = [],
           dbPort = [], dbPassword = [], dbDatabase = [], dbUser = []\<rparr>"
  by (simp add: main_def or_else_def ascii_def Let_def)

lemma token_absent_exits:
  "process_env ''BOT_TOKEN'' = None \<or> process_env ''BOT_TOKEN'' = Some [] \<Longrightarrow>
   main process_env = Exit 1 (ascii ''Please set BOT_TOKEN environment variable'')"
  by (auto simp: main_def or_else_def)

lemma api_url_check_never_fires:
  "main process_env \<noteq> Exit 1 (ascii ''Please set API_BASE_URL environment variable'')"
  by (auto simp: main_def or_else_def Let_def ascii_def split: option.splits)

end
